theory Spec2Isabelle
  imports Complex_Main
begin

section \<open>JavaScript values\<close>

text \<open>
  The values the pipelines handle are what \<open>JSON.parse\<close> produces, together with
  \<open>undefined\<close>, the value of a property that is absent. An object is its list of own
  properties in insertion order. Numbers are taken at their exact decimal value, and
  strings are texts over code units below 256.
\<close>

datatype jsval =
    JUndefined
  | JNull
  | JBool bool
  | JNum rat
  | JStr string
  | JArr "jsval list"
  | JObj "(string \<times> jsval) list"

fun truthy :: "jsval \<Rightarrow> bool" where
  "truthy JUndefined = False"
| "truthy JNull = False"
| "truthy (JBool b) = b"
| "truthy (JNum r) = (r \<noteq> 0)"
| "truthy (JStr s) = (s \<noteq> [])"
| "truthy (JArr xs) = True"
| "truthy (JObj ms) = True"

text \<open>
  \<open>a === b\<close> for two values that come from different parses: primitives compare by
  value, two arrays or objects are never the same reference.
\<close>

fun strictEq :: "jsval \<Rightarrow> jsval \<Rightarrow> bool" where
  "strictEq JUndefined JUndefined = True"
| "strictEq JNull JNull = True"
| "strictEq (JBool a) (JBool b) = (a = b)"
| "strictEq (JNum a) (JNum b) = (a = b)"
| "strictEq (JStr a) (JStr b) = (a = b)"
| "strictEq _ _ = False"

section \<open>Values thrown by the provider and by the runtime\<close>

text \<open>
  Anything can be thrown: \<open>null\<close>, \<open>undefined\<close>, or a value with properties. Of
  such a value the code reads \<open>status\<close> and \<open>message\<close>, either of which may hold any
  value or be absent (\<open>undefined\<close>), and asks for its \<open>JSON.stringify\<close> image, which
  is a string, or \<open>undefined\<close>, or is refused with a TypeError of its own (a cycle, a
  BigInt).
\<close>

datatype stringify_result = SThrows | SUndefined | SString string

record error_object =
  status :: jsval
  message :: jsval
  stringified :: stringify_result

datatype js_error = ThrownNull | ThrownUndefined | Thrown error_object

definition mkError :: "string \<Rightarrow> js_error" where
  "mkError m = Thrown \<lparr>status = JUndefined, message = JStr m, stringified = SString ''{}''\<rparr>"

definition QUOTA_EXCEEDED :: js_error where
  "QUOTA_EXCEEDED = mkError ''QUOTA_EXCEEDED''"

definition TypeError :: js_error where
  "TypeError = mkError ''TypeError''"

definition bindE :: "('e + 'a) \<Rightarrow> ('a \<Rightarrow> 'e + 'b) \<Rightarrow> 'e + 'b" where
  "bindE r f = (case r of Inl e \<Rightarrow> Inl e | Inr v \<Rightarrow> f v)"

section \<open>Properties of values\<close>

text \<open>Assignment to a property: an existing key keeps its place, a new key goes last.\<close>

fun setProp :: "string \<Rightarrow> jsval \<Rightarrow> (string \<times> jsval) list \<Rightarrow> (string \<times> jsval) list" where
  "setProp k v [] = [(k, v)]"
| "setProp k v ((k', v') # ms) = (if k' = k then (k, v) # ms else (k', v') # setProp k v ms)"

definition nullish :: "jsval \<Rightarrow> bool" where
  "nullish v = (v = JUndefined \<or> v = JNull)"

text \<open>
  Reading property \<open>k\<close> of a value that is neither \<open>null\<close> nor \<open>undefined\<close>. Arrays
  and strings own \<open>length\<close>; the other names the code reads are own properties of
  objects only.
\<close>

fun getProp :: "jsval \<Rightarrow> string \<Rightarrow> jsval" where
  "getProp (JObj ms) k = (case map_of ms k of Some v \<Rightarrow> v | None \<Rightarrow> JUndefined)"
| "getProp (JArr xs) k = (if k = ''length'' then JNum (of_nat (length xs)) else JUndefined)"
| "getProp (JStr s) k = (if k = ''length'' then JNum (of_nat (length s)) else JUndefined)"
| "getProp _ k = JUndefined"

text \<open>\<open>v.k\<close>: a TypeError on \<open>null\<close> and \<open>undefined\<close>.\<close>

definition member :: "jsval \<Rightarrow> string \<Rightarrow> js_error + jsval" where
  "member v k = (if nullish v then Inl TypeError else Inr (getProp v k))"

text \<open>\<open>v?.k\<close>\<close>

definition optMember :: "jsval \<Rightarrow> string \<Rightarrow> jsval" where
  "optMember v k = (if nullish v then JUndefined else getProp v k)"

fun showDigits :: "nat \<Rightarrow> nat \<Rightarrow> string" where
  "showDigits 0 n = []"
| "showDigits (Suc f) n =
     (if n < 10 then [char_of (48 + n)]
      else showDigits f (n div 10) @ [char_of (48 + n mod 10)])"

definition showNat :: "nat \<Rightarrow> string" where
  "showNat n = showDigits (Suc n) n"

text \<open>The own enumerable properties that \<open>{...v}\<close> copies.\<close>

fun spread :: "jsval \<Rightarrow> (string \<times> jsval) list" where
  "spread (JObj ms) = ms"
| "spread (JArr xs) = zip (map showNat [0..<length xs]) xs"
| "spread (JStr s) = zip (map showNat [0..<length s]) (map (\<lambda>c. JStr [c]) s)"
| "spread _ = []"

section \<open>String primitives\<close>

definition startsWith :: "string \<Rightarrow> string \<Rightarrow> bool" where
  "startsWith s p = (take (length p) s = p)"

fun str_includes :: "string \<Rightarrow> string \<Rightarrow> bool" where
  "str_includes [] sub = (sub = [])"
| "str_includes (c # cs) sub = (startsWith (c # cs) sub \<or> str_includes cs sub)"

section \<open>The tiered caller\<close>

definition MODEL_SMART :: string where "MODEL_SMART = ''gemini-3-pro-preview''"
definition MODEL_FAST :: string where "MODEL_FAST = ''gemini-2.5-flash''"

text \<open>
  An operation is a function of the model identifier that runs against the world
  \<open>'w\<close> (the provider, the module variables) and either throws or returns.
\<close>

type_synonym ('a, 'w) api = "string \<Rightarrow> 'w \<Rightarrow> (js_error + 'a) \<times> 'w"

record 'a tiered =
  output' :: 'a
  model :: string

text \<open>\<open>error?.status\<close> and \<open>error?.message\<close>: \<open>undefined\<close> on \<open>null\<close> and \<open>undefined\<close>.\<close>

definition statusOf :: "js_error \<Rightarrow> jsval" where
  "statusOf error = (case error of Thrown eo \<Rightarrow> status eo | _ \<Rightarrow> JUndefined)"


text \<open>
  Line 79: \<open>error?.message || JSON.stringify(error)\<close>. A truthy message is taken
  whatever its type; otherwise the value is stringified, \<open>null\<close> to the text
  \<open>null\<close> and \<open>undefined\<close> to \<open>undefined\<close>, and a refusal is thrown from the handler.
\<close>

definition errorMsg :: "js_error \<Rightarrow> js_error + jsval" where
  "errorMsg error =
     (case error of
        ThrownNull \<Rightarrow> Inr (JStr ''null'')
      | ThrownUndefined \<Rightarrow> Inr JUndefined
      | Thrown eo \<Rightarrow>
          if truthy (message eo) then Inr (message eo)
          else (case stringified eo of
                  SThrows \<Rightarrow> Inl TypeError
                | SUndefined \<Rightarrow> Inr JUndefined
                | SString s \<Rightarrow> Inr (JStr s)))"

text \<open>
  \<open>msg.includes(x)\<close>: the substring test of a string, the membership test of an array,
  and a TypeError on any other value, which has no such method.
\<close>

definition msgIncludes :: "jsval \<Rightarrow> string \<Rightarrow> js_error + bool" where
  "msgIncludes msg x =
     (case msg of
        JStr s \<Rightarrow> Inr (str_includes s x)
      | JArr xs \<Rightarrow> Inr (JStr x \<in> set xs)
      | _ \<Rightarrow> Inl TypeError)"

text \<open>
  Lines 79 and 80: the message is computed first, then the three tests are made from
  left to right, each one only when those before it are false.
\<close>

definition isQuota :: "js_error \<Rightarrow> js_error + bool" where
  "isQuota error =
     bindE (errorMsg error) (\<lambda>msg.
       if strictEq (statusOf error) (JNum 429) then Inr True
       else bindE (msgIncludes msg ''429'') (\<lambda>found.
              if found then Inr True else msgIncludes msg ''quota''))"

text \<open>What the handler of lines 78 to 86 throws for the error it caught.\<close>

definition rethrown :: "js_error \<Rightarrow> js_error" where
  "rethrown error =
     (case isQuota error of
        Inl thrownInHandler \<Rightarrow> thrownInHandler
      | Inr q \<Rightarrow> if q then QUOTA_EXCEEDED else error)"

definition attemptCall :: "('a, 'w) api \<Rightarrow> string \<Rightarrow> 'w \<Rightarrow> (js_error + 'a tiered) \<times> 'w" where
  "attemptCall apiCall m w =
     (case apiCall m w of
        (Inr result, w') \<Rightarrow> (Inr \<lparr>output' = result, model = m\<rparr>, w')
      | (Inl error, w') \<Rightarrow> (Inl (rethrown error), w'))"

text \<open>
  \<open>fallbackModel\<close> is \<open>string | null\<close>; the guard \<open>&& fallbackModel\<close> is a truthiness
  test, so the empty string counts as no fallback. Line 92 reads \<open>error.message\<close>
  without a guard: on \<open>null\<close> and \<open>undefined\<close> that is a TypeError, thrown from the
  handler. Every call site passes both tiers, so the defaults of lines 70 and 71 never
  apply. The warnings written to the console are left out.
\<close>

definition callAI ::
  "string \<Rightarrow> ('a, 'w) api \<Rightarrow> string \<Rightarrow> string option \<Rightarrow> 'w \<Rightarrow> (js_error + 'a tiered) \<times> 'w" where
  "callAI operationName apiCall primaryModel fallbackModel w =
     (case attemptCall apiCall primaryModel w of
        (Inr r, w') \<Rightarrow> (Inr r, w')
      | (Inl error, w') \<Rightarrow>
          (case error of
             Thrown eo \<Rightarrow>
               (case fallbackModel of
                  Some fb \<Rightarrow>
                    if strictEq (message eo) (JStr ''QUOTA_EXCEEDED'') \<and> fb \<noteq> []
                    then attemptCall apiCall fb w'
                    else (Inl error, w')
                | None \<Rightarrow> (Inl error, w'))
           | _ \<Rightarrow> (Inl TypeError, w')))"


section \<open>JSON.parse\<close>

text \<open>
  The grammar of ECMA-404 as \<open>JSON.parse\<close> applies it, in two passes: a scanner that
  reads the text one character at a time, and a pushdown recogniser over the tokens.
  A SyntaxError is \<open>None\<close>.
\<close>

datatype token =
    TLBrace | TRBrace | TLBrack | TRBrack | TColon | TComma
  | TStr string
  | TPrim jsval

definition isDigit :: "char \<Rightarrow> bool" where
  "isDigit c = (c \<in> set ''0123456789'')"

definition digitVal :: "char \<Rightarrow> nat" where
  "digitVal c = of_char c - 48"

definition natOfDigits :: "string \<Rightarrow> nat" where
  "natOfDigits ds = foldl (\<lambda>n c. 10 * n + digitVal c) 0 ds"

text \<open>The exponent part: \<open>[eE] [+-]? digit+\<close>, or nothing.\<close>

definition parseExponent :: "string \<Rightarrow> (bool \<times> nat) option" where
  "parseExponent s =
     (case s of
        [] \<Rightarrow> Some (False, 0)
      | c # r \<Rightarrow>
          if c = CHR ''e'' \<or> c = CHR ''E'' then
            (let neg = (case r of d # _ \<Rightarrow> d = CHR ''-'' | [] \<Rightarrow> False);
                 ds = (case r of d # r' \<Rightarrow> if d = CHR ''-'' \<or> d = CHR ''+'' then r' else r
                       | [] \<Rightarrow> [])
             in if ds \<noteq> [] \<and> list_all isDigit ds then Some (neg, natOfDigits ds) else None)
          else None)"

text \<open>A number: \<open>-? (0 | [1-9] digit*) (. digit+)? exponent?\<close>.\<close>

definition parseNumber :: "string \<Rightarrow> rat option" where
  "parseNumber s =
     (let neg = (case s of c # _ \<Rightarrow> c = CHR ''-'' | [] \<Rightarrow> False);
          s1 = (if neg then tl s else s);
          ip = takeWhile isDigit s1;
          s2 = dropWhile isDigit s1;
          hasFrac = (case s2 of c # _ \<Rightarrow> c = CHR ''.'' | [] \<Rightarrow> False);
          fp = (if hasFrac then takeWhile isDigit (tl s2) else []);
          s3 = (if hasFrac then dropWhile isDigit (tl s2) else s2)
      in if ip = [] \<or> (length ip > 1 \<and> hd ip = CHR ''0'') \<or> (hasFrac \<and> fp = []) then None
         else (case parseExponent s3 of
                 None \<Rightarrow> None
               | Some (eneg, ex) \<Rightarrow>
                   (let m = of_nat (natOfDigits (ip @ fp)) / (10 ^ length fp);
                        v = (if eneg then m / (10 ^ ex) else m * (10 ^ ex))
                    in Some (if neg then - v else v))))"

definition parseWord :: "string \<Rightarrow> jsval option" where
  "parseWord s =
     (if s = ''true'' then Some (JBool True)
      else if s = ''false'' then Some (JBool False)
      else if s = ''null'' then Some JNull
      else None)"

definition hexVal :: "char \<Rightarrow> nat option" where
  "hexVal c =
     (if isDigit c then Some (digitVal c)
      else if c \<in> set ''abcdef'' then Some (of_char c - 87)
      else if c \<in> set ''ABCDEF'' then Some (of_char c - 55)
      else None)"

definition escapeChar :: "char \<Rightarrow> char option" where
  "escapeChar c =
     (if c = CHR 0x22 \<or> c = CHR 0x5C \<or> c = CHR ''/'' then Some c
      else if c = CHR ''b'' then Some (CHR 0x08)
      else if c = CHR ''f'' then Some (CHR 0x0C)
      else if c = CHR ''n'' then Some (CHR 0x0A)
      else if c = CHR ''r'' then Some (CHR 0x0D)
      else if c = CHR ''t'' then Some (CHR 0x09)
      else None)"

datatype lstate =
    LDefault
  | LStr string
  | LEsc string
  | LUni string "nat list"
  | LNum string
  | LWord string

definition isNumChar :: "char \<Rightarrow> bool" where
  "isNumChar c = (isDigit c \<or> c \<in> set ''+-.eE'')"

definition isLetter :: "char \<Rightarrow> bool" where
  "isLetter c = (c \<in> set ''abcdefghijklmnopqrstuvwxyz'')"

text \<open>What a character starts when no token is open.\<close>

definition startTok :: "char \<Rightarrow> (lstate \<times> token list) option" where
  "startTok c =
     (if c \<in> set [CHR 0x20, CHR 0x09, CHR 0x0A, CHR 0x0D] then Some (LDefault, [])
      else if c = CHR ''{'' then Some (LDefault, [TLBrace])
      else if c = CHR ''}'' then Some (LDefault, [TRBrace])
      else if c = CHR ''['' then Some (LDefault, [TLBrack])
      else if c = CHR '']'' then Some (LDefault, [TRBrack])
      else if c = CHR '':'' then Some (LDefault, [TColon])
      else if c = CHR '','' then Some (LDefault, [TComma])
      else if c = CHR 0x22 then Some (LStr [], [])
      else if c = CHR ''-'' \<or> isDigit c then Some (LNum [c], [])
      else if isLetter c then Some (LWord [c], [])
      else None)"

definition resume :: "token \<Rightarrow> (lstate \<times> token list) option \<Rightarrow> (lstate \<times> token list) option" where
  "resume t r = (case r of None \<Rightarrow> None | Some (st, ts) \<Rightarrow> Some (st, t # ts))"

text \<open>
  One character of scanning. The accumulators of open tokens are kept reversed. A
  \<open>\u\<close> escape above \<open>00FF\<close> has no counterpart in the alphabet of the model and is
  refused.
\<close>

fun lexStep :: "lstate \<Rightarrow> char \<Rightarrow> (lstate \<times> token list) option" where
  "lexStep LDefault c = startTok c"
| "lexStep (LStr acc) c =
     (if c = CHR 0x22 then Some (LDefault, [TStr (rev acc)])
      else if c = CHR 0x5C then Some (LEsc acc, [])
      else if of_char c < (32::nat) then None
      else Some (LStr (c # acc), []))"
| "lexStep (LEsc acc) c =
     (if c = CHR ''u'' then Some (LUni acc [], [])
      else (case escapeChar c of None \<Rightarrow> None | Some d \<Rightarrow> Some (LStr (d # acc), [])))"
| "lexStep (LUni acc hs) c =
     (case hexVal c of
        None \<Rightarrow> None
      | Some h \<Rightarrow>
          if length hs < 3 then Some (LUni acc (hs @ [h]), [])
          else (let n = foldl (\<lambda>a d. 16 * a + d) 0 (hs @ [h])
                in if n < 256 then Some (LStr (char_of n # acc), []) else None))"
| "lexStep (LNum acc) c =
     (if isNumChar c then Some (LNum (c # acc), [])
      else (case parseNumber (rev acc) of
              None \<Rightarrow> None
            | Some r \<Rightarrow> resume (TPrim (JNum r)) (startTok c)))"
| "lexStep (LWord acc) c =
     (if isLetter c then Some (LWord (c # acc), [])
      else (case parseWord (rev acc) of
              None \<Rightarrow> None
            | Some v \<Rightarrow> resume (TPrim v) (startTok c)))"

definition lexEnd :: "lstate \<Rightarrow> token list option" where
  "lexEnd st =
     (case st of
        LDefault \<Rightarrow> Some []
      | LNum acc \<Rightarrow> map_option (\<lambda>r. [TPrim (JNum r)]) (parseNumber (rev acc))
      | LWord acc \<Rightarrow> map_option (\<lambda>v. [TPrim v]) (parseWord (rev acc))
      | _ \<Rightarrow> None)"

fun tokenize :: "lstate \<Rightarrow> string \<Rightarrow> token list option" where
  "tokenize st [] = lexEnd st"
| "tokenize st (c # cs) =
     (case lexStep st c of
        None \<Rightarrow> None
      | Some (st', ts) \<Rightarrow> map_option ((@) ts) (tokenize st' cs))"

text \<open>
  The recogniser keeps the open containers on a stack. An object frame holds its
  members and, between a key and its value, the key.
\<close>

datatype frame =
    FArr "jsval list"
  | FObj "(string \<times> jsval) list" "string option"

datatype pmode =
    PValue | PValueOrEnd | PKeyOrEnd | PKey | PColon | PAfter | PDone jsval

fun complete :: "jsval \<Rightarrow> frame list \<Rightarrow> (frame list \<times> pmode) option" where
  "complete v [] = Some ([], PDone v)"
| "complete v (FArr acc # st) = Some (FArr (v # acc) # st, PAfter)"
| "complete v (FObj ms (Some k) # st) = Some (FObj (setProp k v ms) None # st, PAfter)"
| "complete v (FObj ms None # st) = None"

fun beginValue :: "token \<Rightarrow> frame list \<Rightarrow> (frame list \<times> pmode) option" where
  "beginValue (TPrim v) st = complete v st"
| "beginValue (TStr s) st = complete (JStr s) st"
| "beginValue TLBrack st = Some (FArr [] # st, PValueOrEnd)"
| "beginValue TLBrace st = Some (FObj [] None # st, PKeyOrEnd)"
| "beginValue _ st = None"

fun parseStep :: "frame list \<times> pmode \<Rightarrow> token \<Rightarrow> (frame list \<times> pmode) option" where
  "parseStep (st, PValue) t = beginValue t st"
| "parseStep (FArr [] # st, PValueOrEnd) TRBrack = complete (JArr []) st"
| "parseStep (st, PValueOrEnd) t = beginValue t st"
| "parseStep (FObj [] None # st, PKeyOrEnd) TRBrace = complete (JObj []) st"
| "parseStep (FObj ms None # st, PKeyOrEnd) (TStr k) = Some (FObj ms (Some k) # st, PColon)"
| "parseStep (FObj ms None # st, PKey) (TStr k) = Some (FObj ms (Some k) # st, PColon)"
| "parseStep (st, PColon) TColon = Some (st, PValue)"
| "parseStep (FArr acc # st, PAfter) TComma = Some (FArr acc # st, PValue)"
| "parseStep (FObj ms None # st, PAfter) TComma = Some (FObj ms None # st, PKey)"
| "parseStep (FArr acc # st, PAfter) TRBrack = complete (JArr (rev acc)) st"
| "parseStep (FObj ms None # st, PAfter) TRBrace = complete (JObj ms) st"
| "parseStep _ _ = None"

fun parseTokens :: "frame list \<times> pmode \<Rightarrow> token list \<Rightarrow> (frame list \<times> pmode) option" where
  "parseTokens s [] = Some s"
| "parseTokens s (t # ts) =
     (case parseStep s t of None \<Rightarrow> None | Some s' \<Rightarrow> parseTokens s' ts)"

definition parseJSON :: "string \<Rightarrow> jsval option" where
  "parseJSON txt =
     (case tokenize LDefault txt of
        None \<Rightarrow> None
      | Some ts \<Rightarrow>
          (case parseTokens ([], PValue) ts of
             Some ([], PDone v) \<Rightarrow> Some v
           | _ \<Rightarrow> None))"

definition SyntaxError :: js_error where
  "SyntaxError = mkError ''SyntaxError''"

definition JSON_parse :: "string \<Rightarrow> js_error + jsval" where
  "JSON_parse txt = (case parseJSON txt of None \<Rightarrow> Inl SyntaxError | Some v \<Rightarrow> Inr v)"

section \<open>The response sanitizer\<close>

fun indexOf :: "string \<Rightarrow> char \<Rightarrow> int" where
  "indexOf [] c = - 1"
| "indexOf (x # xs) c =
     (if x = c then 0 else (let i = indexOf xs c in if i = - 1 then - 1 else i + 1))"

definition lastIndexOf :: "string \<Rightarrow> char \<Rightarrow> int" where
  "lastIndexOf s c =
     (let i = indexOf (rev s) c in if i = - 1 then - 1 else int (length s) - 1 - i)"

text \<open>\<open>substring\<close> clamps both indices to the string and swaps them when out of order.\<close>

definition substring :: "string \<Rightarrow> int \<Rightarrow> int \<Rightarrow> string" where
  "substring s a b =
     (let a' = min (nat a) (length s); b' = min (nat b) (length s)
      in take (max a' b' - min a' b') (drop (min a' b') s))"

definition isWhiteSpace :: "char \<Rightarrow> bool" where
  "isWhiteSpace c =
     (c \<in> set [CHR 0x09, CHR 0x0A, CHR 0x0B, CHR 0x0C, CHR 0x0D, CHR 0x20, CHR 0xA0])"

definition trim :: "string \<Rightarrow> string" where
  "trim s = rev (dropWhile isWhiteSpace (rev (dropWhile isWhiteSpace s)))"

definition fence :: string where
  "fence = [CHR 0x60, CHR 0x60, CHR 0x60]"

text \<open>\<open>replace(/^```(?:json)?\n?/, "")\<close> on a string that starts with the fence.\<close>

definition stripOpeningFence :: "string \<Rightarrow> string" where
  "stripOpeningFence s =
     (let s1 = drop 3 s;
          s2 = (if startsWith s1 ''json'' then drop 4 s1 else s1)
      in case s2 of c # r \<Rightarrow> if c = CHR 0x0A then r else s2 | [] \<Rightarrow> s2)"

text \<open>\<open>replace(/\n?```$/, "")\<close>: the leftmost match takes the line feed when there is one.\<close>

definition stripClosingFence :: "string \<Rightarrow> string" where
  "stripClosingFence s =
     (if length s \<ge> 3 \<and> drop (length s - 3) s = fence then
        (let body = take (length s - 3) s
         in if body \<noteq> [] \<and> last body = CHR 0x0A then butlast body else body)
      else s)"

text \<open>
  Lines 31 to 42: \<open>Some v\<close> when the function returns \<open>v\<close> there, \<open>None\<close> when
  control goes on to the loose cleaning (no boundaries, or the candidate does not parse).
\<close>

definition primaryParse :: "string \<Rightarrow> jsval option" where
  "primaryParse txt =
     (let firstOpen = indexOf txt (CHR ''{'');
          lastClose = lastIndexOf txt (CHR ''}'')
      in if firstOpen \<noteq> - 1 \<and> lastClose \<noteq> - 1 then
           (case JSON_parse (substring txt firstOpen (lastClose + 1)) of
              Inr v \<Rightarrow> Some v
            | Inl e \<Rightarrow> None)
         else None)"

text \<open>Lines 44 to 51: the text handed to the second parse.\<close>

definition stripFences :: "string \<Rightarrow> string" where
  "stripFences txt =
     (let cleaned = trim txt
      in if startsWith cleaned fence
         then stripClosingFence (stripOpeningFence cleaned) else cleaned)"

text \<open>Lines 53 to 58: the second parse, with its own handler.\<close>

definition looseParse :: "string \<Rightarrow> js_error + jsval" where
  "looseParse txt =
     (case JSON_parse (stripFences txt) of
        Inr v \<Rightarrow> Inr v
      | Inl e \<Rightarrow> Inr (JObj []))"

definition cleanAndParseJSON :: "string option \<Rightarrow> js_error + jsval" where
  "cleanAndParseJSON t =
     (case t of
        None \<Rightarrow> Inr (JObj [])
      | Some txt \<Rightarrow>
          if txt = [] then Inr (JObj [])
          else (case primaryParse txt of
                  Some v \<Rightarrow> Inr v
                | None \<Rightarrow> looseParse txt))"

section \<open>The provider's responses\<close>

text \<open>
  Of a response the code reads \<open>text\<close>, which may be absent, and the grounding chunks
  of the first candidate (\<open>candidates?.[0]?.groundingMetadata?.groundingChunks\<close>, no
  chunk when a link of that chain is absent).
\<close>

record response =
  text' :: "string option"
  groundingChunks :: "(string \<times> jsval) list list"

text \<open>
  Lines 398 to 400, 612 to 614 and 853 to 855: a chunk is an object of the provider, given
  here by its properties.
\<close>

fun collectSources :: "(string \<times> jsval) list list \<Rightarrow> jsval list" where
  "collectSources [] = []"
| "collectSources (c # cs) =
     (let web = getProp (JObj c) ''web''
      in if truthy web
         then JObj [(''uri'', getProp web ''uri''), (''title'', getProp web ''title'')]
                # collectSources cs
         else collectSources cs)"

section \<open>Homework analysis\<close>

text \<open>
  \<open>(c || 0) < 80\<close>. The conversion to a number of a truthy value that is neither a
  number nor a boolean is the language's \<open>ToNumber\<close>; it is a parameter here, \<open>None\<close>
  standing for \<open>NaN\<close>.
\<close>

definition lessThan80 :: "(jsval \<Rightarrow> rat option) \<Rightarrow> jsval \<Rightarrow> bool" where
  "lessThan80 toNumber c =
     (let c' = (if truthy c then c else JNum 0)
      in case c' of
           JNum r \<Rightarrow> r < 80
         | JBool b \<Rightarrow> True
         | _ \<Rightarrow> (case toNumber c' of Some r \<Rightarrow> r < 80 | None \<Rightarrow> False))"

definition needsRefine :: "(jsval \<Rightarrow> rat option) \<Rightarrow> jsval \<Rightarrow> js_error + bool" where
  "needsRefine toNumber p =
     bindE (member p ''validation_check'') (\<lambda>vc.
       Inr (strictEq (optMember vc ''status'') (JStr ''warning'')
            \<or> lessThan80 toNumber (optMember vc ''confidence_score'')))"

fun filterE :: "('a \<Rightarrow> js_error + bool) \<Rightarrow> 'a list \<Rightarrow> js_error + 'a list" where
  "filterE P [] = Inr []"
| "filterE P (x # xs) =
     bindE (P x) (\<lambda>b. bindE (filterE P xs) (\<lambda>r. Inr (if b then x # r else r)))"

fun findIndex :: "('a \<Rightarrow> js_error + bool) \<Rightarrow> 'a list \<Rightarrow> js_error + int" where
  "findIndex P [] = Inr (- 1)"
| "findIndex P (x # xs) =
     bindE (P x) (\<lambda>b.
       if b then Inr 0
       else bindE (findIndex P xs) (\<lambda>i. Inr (if i = - 1 then - 1 else i + 1)))"

text \<open>The callback of \<open>findIndex\<close> at line 263, for the corrected record \<open>fixedP\<close>.\<close>

definition matches :: "jsval \<Rightarrow> jsval \<Rightarrow> js_error + bool" where
  "matches fixedP p =
     bindE (member p ''problem_statement'') (\<lambda>a.
     bindE (member fixedP ''problem_statement'') (\<lambda>b.
       if strictEq a b then Inr True
       else bindE (member p ''student_answer'') (\<lambda>c.
            bindE (member fixedP ''student_answer'') (\<lambda>d. Inr (strictEq c d)))))"

definition selfCorrected :: "jsval \<Rightarrow> jsval" where
  "selfCorrected fixedP =
     JObj (setProp ''validation''
            (JObj [(''status'', JStr ''verified''), (''confidenceScore'', JNum 99),
                   (''renderingNote'', JStr ''AI Self-Corrected'')])
            (spread fixedP))"

text \<open>
  The \<open>forEach\<close> at line 261. It writes into the array of problems as it goes, so what
  was written before a throw stays written: the array is returned beside the outcome.
\<close>

fun mergeRefined :: "jsval list \<Rightarrow> jsval list \<Rightarrow> (js_error + unit) \<times> jsval list" where
  "mergeRefined [] problems = (Inr (), problems)"
| "mergeRefined (fixedP # rest) problems =
     (case findIndex (matches fixedP) problems of
        Inl e \<Rightarrow> (Inl e, problems)
      | Inr index \<Rightarrow>
          mergeRefined rest
            (if index \<noteq> - 1 then problems[nat index := selfCorrected fixedP] else problems))"

text \<open>
  Lines 228 to 279. Everything between \<open>try\<close> and \<open>catch\<close> that throws leaves the
  array as it is at that moment. A \<open>problems\<close> value that is not an array either fails
  the guard of line 258 or has no \<open>forEach\<close>, whose TypeError is caught.
\<close>

definition refineProblems ::
  "(jsval list \<Rightarrow> (response, 'w) api) \<Rightarrow> jsval list \<Rightarrow> jsval list \<Rightarrow> 'w \<Rightarrow> jsval list \<times> 'w" where
  "refineProblems refineCall problemsToRefine problems w =
     (if length problemsToRefine > 0 then
        (case callAI ''Analysis Refinement'' (refineCall problemsToRefine) MODEL_SMART None w of
           (Inl e, w') \<Rightarrow> (problems, w')
         | (Inr refineRes, w') \<Rightarrow>
             (case bindE (cleanAndParseJSON (text' (output' refineRes)))
                     (\<lambda>refinedData. member refinedData ''problems'') of
                Inl e \<Rightarrow> (problems, w')
              | Inr refined \<Rightarrow>
                  (case refined of
                     JArr fixed \<Rightarrow>
                       if length fixed > 0 then (snd (mergeRefined fixed problems), w')
                       else (problems, w')
                   | _ \<Rightarrow> (problems, w'))))
      else (problems, w))"

text \<open>
  Line 184 destructures the tuning data, and the prompt of line 192 joins
  \<open>grading_rules\<close> when it is truthy.
\<close>

definition tuningContext :: "jsval \<Rightarrow> js_error + jsval" where
  "tuningContext contextData =
     (if nullish contextData then Inl TypeError
      else (case getProp contextData ''grading_rules'' of
              JArr rules \<Rightarrow> Inr contextData
            | g \<Rightarrow> if truthy g then Inl TypeError else Inr contextData))"

text \<open>
  Lines 220 and 224: \<open>problems\<close> is set to the empty array when falsy, which a
  primitive refuses, and must have a \<open>filter\<close>.
\<close>

definition ensureProblems :: "jsval \<Rightarrow> js_error + jsval list" where
  "ensureProblems rawResponse =
     bindE (member rawResponse ''problems'') (\<lambda>ps.
       if \<not> truthy ps then
         (case rawResponse of
            JObj ms \<Rightarrow> Inr []
          | JArr xs \<Rightarrow> Inr []
          | _ \<Rightarrow> Inl TypeError)
       else (case ps of JArr xs \<Rightarrow> Inr xs | _ \<Rightarrow> Inl TypeError))"

definition toProblemAnalysis :: "jsval \<Rightarrow> nat \<Rightarrow> jsval \<Rightarrow> js_error + jsval" where
  "toProblemAnalysis contextData index p =
     bindE (member p ''is_correct'') (\<lambda>is_correct.
       Inr (JObj
         [(''id'', JNum (of_nat (index + 1))),
          (''subject'', getProp contextData ''subject''),
          (''topic'', getProp contextData ''topic''),
          (''isCorrect'', is_correct),
          (''boundingBox'', getProp p ''error_location''),
          (''explanation'', getProp p ''complete_solution''),
          (''steps'', getProp p ''step_by_step''),
          (''problemStatement'', getProp p ''problem_statement''),
          (''keyConcepts'', getProp p ''key_concepts''),
          (''studentAnswer'', getProp p ''student_answer''),
          (''visualAidPrompt'', getProp p ''visual_aid_prompt''),
          (''validation'',
             (let vc = getProp p ''validation_check''
              in if truthy vc then
                   JObj [(''status'', getProp vc ''status''),
                         (''confidenceScore'', getProp vc ''confidence_score''),
                         (''renderingNote'', getProp vc ''rendering_note'')]
                 else (let v = getProp p ''validation''
                       in if truthy v then v else JUndefined)))]))"

fun mapIndexed :: "(nat \<Rightarrow> 'a \<Rightarrow> js_error + 'b) \<Rightarrow> nat \<Rightarrow> 'a list \<Rightarrow> js_error + 'b list" where
  "mapIndexed f i [] = Inr []"
| "mapIndexed f i (x # xs) =
     bindE (f i x) (\<lambda>y. bindE (mapIndexed f (Suc i) xs) (\<lambda>ys. Inr (y # ys)))"

definition homeworkResponse :: "jsval \<Rightarrow> string \<Rightarrow> jsval list \<Rightarrow> js_error + jsval" where
  "homeworkResponse contextData modelUsed problems =
     bindE (mapIndexed (toProblemAnalysis contextData) 0 problems) (\<lambda>ps.
       Inr (JObj [(''hasStudentSolution'', getProp contextData ''has_student_solution''),
                  (''modelUsed'', JStr modelUsed),
                  (''problems'', JArr ps)]))"

text \<open>
  \<open>analyzeHomework\<close>. The three generation requests are parameters: the tuning
  request, the analysis request, whose prompt is built from the tuning data, and the
  refinement request, whose prompt carries the selected records.
\<close>

definition analyzeHomework ::
  "(jsval \<Rightarrow> rat option) \<Rightarrow> (response, 'w) api \<Rightarrow> (jsval \<Rightarrow> (response, 'w) api) \<Rightarrow>
   (jsval list \<Rightarrow> (response, 'w) api) \<Rightarrow> 'w \<Rightarrow> (js_error + jsval) \<times> 'w" where
  "analyzeHomework toNumber tuningCall analysisCall refineCall w =
     (case callAI ''Auto-Tuning'' tuningCall MODEL_FAST None w of
        (Inl e, w1) \<Rightarrow> (Inl e, w1)
      | (Inr tuningRes, w1) \<Rightarrow>
          (case bindE (cleanAndParseJSON (text' (output' tuningRes))) tuningContext of
             Inl e \<Rightarrow> (Inl e, w1)
           | Inr contextData \<Rightarrow>
               (case callAI ''Deep Execution'' (analysisCall contextData)
                       MODEL_SMART (Some MODEL_FAST) w1 of
                  (Inl e, w2) \<Rightarrow> (Inl e, w2)
                | (Inr analysisRes, w2) \<Rightarrow>
                    (case bindE (cleanAndParseJSON (text' (output' analysisRes))) ensureProblems of
                       Inl e \<Rightarrow> (Inl e, w2)
                     | Inr problems \<Rightarrow>
                         (case filterE (needsRefine toNumber) problems of
                            Inl e \<Rightarrow> (Inl e, w2)
                          | Inr problemsToRefine \<Rightarrow>
                              (case refineProblems refineCall problemsToRefine problems w2 of
                                 (problems', w3) \<Rightarrow>
                                   (homeworkResponse contextData (model analysisRes) problems',
                                    w3)))))))"

section \<open>Math solving\<close>

definition orEmpty :: "string option \<Rightarrow> string" where
  "orEmpty t = (case t of Some s \<Rightarrow> s | None \<Rightarrow> [])"

text \<open>
  Lines 598 to 615: the grounding stage, run only on request. It yields the context text
  and the sources.
\<close>

definition mathSearch :: "(response, 'w) api \<Rightarrow> bool \<Rightarrow> 'w \<Rightarrow> (js_error + string \<times> jsval list) \<times> 'w" where
  "mathSearch searchCall useSearch w =
     (if useSearch then
        (case callAI ''Math Search'' searchCall MODEL_FAST None w of
           (Inl e, w') \<Rightarrow> (Inl e, w')
         | (Inr searchRes, w') \<Rightarrow>
             (Inr (orEmpty (text' (output' searchRes)),
                   collectSources (groundingChunks (output' searchRes))), w'))
      else (Inr ([], []), w))"

definition repairedResult :: "jsval \<Rightarrow> string \<Rightarrow> jsval list \<Rightarrow> jsval" where
  "repairedResult corrected_response solveModel sources =
     JObj (setProp ''wasAutoRepaired'' (JBool True)
            (setProp ''sources'' (JArr sources)
              (setProp ''modelUsed'' (JStr (solveModel @ '' + Verified''))
                (spread corrected_response))))"

definition firstPassResult :: "jsval \<Rightarrow> string \<Rightarrow> jsval list \<Rightarrow> jsval" where
  "firstPassResult firstPassData solveModel sources =
     JObj (setProp ''wasAutoRepaired'' (JBool False)
            (setProp ''sources'' (JArr sources)
              (setProp ''modelUsed'' (JStr solveModel)
                (spread firstPassData))))"

text \<open>
  Lines 678 to 702: the body of the \<open>try\<close>. \<open>Inr (Some r)\<close> is the early return of
  line 693, \<open>Inr None\<close> is falling out of the block, \<open>Inl e\<close> is a throw.
\<close>

definition verifyStage ::
  "(response, 'w) api \<Rightarrow> string \<Rightarrow> jsval list \<Rightarrow> 'w \<Rightarrow> (js_error + jsval option) \<times> 'w" where
  "verifyStage verifyCall solveModel sources w =
     (case callAI ''Math Verification'' verifyCall MODEL_FAST None w of
        (Inl e, w') \<Rightarrow> (Inl e, w')
      | (Inr verifyRes, w') \<Rightarrow>
          (bindE (cleanAndParseJSON (text' (output' verifyRes))) (\<lambda>verifyData.
           bindE (member verifyData ''valid'') (\<lambda>valid.
             if strictEq valid (JBool False) \<and> truthy (getProp verifyData ''corrected_response'')
             then Inr (Some (repairedResult (getProp verifyData ''corrected_response'')
                               solveModel sources))
             else Inr None)), w'))"

text \<open>
  \<open>solveMathWithCode\<close>. The requests are parameters: the search request, the solve
  request, whose prompt carries the context text, and the verification request, whose
  prompt reads \<open>explanation\<close> and \<open>pythonCode\<close> of the first pass (line 666).
\<close>

definition solveMathWithCode ::
  "(response, 'w) api \<Rightarrow> (string \<Rightarrow> (response, 'w) api) \<Rightarrow> (jsval \<Rightarrow> (response, 'w) api) \<Rightarrow>
   bool \<Rightarrow> 'w \<Rightarrow> (js_error + jsval) \<times> 'w" where
  "solveMathWithCode searchCall solveCall verifyCall useSearch w =
     (case mathSearch searchCall useSearch w of
        (Inl e, w1) \<Rightarrow> (Inl e, w1)
      | (Inr (contextInfo, sources), w1) \<Rightarrow>
          (case callAI ''Math Lab'' (solveCall contextInfo) MODEL_SMART (Some MODEL_FAST) w1 of
             (Inl e, w2) \<Rightarrow> (Inl e, w2)
           | (Inr res, w2) \<Rightarrow>
               (case bindE (cleanAndParseJSON (text' (output' res)))
                       (\<lambda>firstPassData. bindE (member firstPassData ''explanation'')
                          (\<lambda>_. Inr firstPassData)) of
                  Inl e \<Rightarrow> (Inl e, w2)
                | Inr firstPassData \<Rightarrow>
                    (case verifyStage (verifyCall firstPassData) (model res) sources w2 of
                       (Inr (Some repaired), w3) \<Rightarrow> (Inr repaired, w3)
                     | (_, w3) \<Rightarrow>
                         (Inr (firstPassResult firstPassData (model res) sources), w3)))))"

section \<open>The session registry\<close>

text \<open>
  The module variables of lines 14 to 17, beside the state of the provider. A session
  is a handle of the provider.
\<close>

record ('s, 'p) world =
  chatSession :: "'s option"
  chatModelUsed :: string
  examSession :: "'s option"
  examModelUsed :: string
  provider :: 'p

definition initialWorld :: "'p \<Rightarrow> ('s, 'p) world" where
  "initialWorld p =
     \<lparr>chatSession = None, chatModelUsed = MODEL_FAST,
      examSession = None, examModelUsed = MODEL_FAST, provider = p\<rparr>"

datatype part = TextPart string | InlineData string string

datatype message = Parts "part list" | Plain string

text \<open>
  \<open>getAI()\<close> builds the client from the key and may throw (\<open>Some\<close> the error).
  \<open>ai.chats.create\<close> takes the model and the system instruction and throws or gives
  a session; \<open>session.sendMessage\<close> throws or gives a response.
\<close>

type_synonym 'p get_ai = "'p \<Rightarrow> js_error option"
type_synonym ('s, 'p) chats_create = "string \<Rightarrow> string \<Rightarrow> 'p \<Rightarrow> (js_error + 's) \<times> 'p"
type_synonym ('s, 'p) send_message = "'s \<Rightarrow> message \<Rightarrow> 'p \<Rightarrow> (js_error + response) \<times> 'p"

datatype input_type = Image | Text

definition chatFirstMessage :: "input_type \<Rightarrow> string \<Rightarrow> string option \<Rightarrow> message" where
  "chatFirstMessage ty dat textContext =
     Parts [(case ty of Image \<Rightarrow> InlineData dat ''image/jpeg'' | Text \<Rightarrow> TextPart dat),
            (case textContext of
               Some c \<Rightarrow> if c \<noteq> [] then TextPart (''Context:'' @ [CHR 0x0A] @ c)
                         else TextPart ''Context.''
             | None \<Rightarrow> TextPart ''Context.'')]"

text \<open>The operation that \<open>initializeChat\<close> hands to the caller (lines 366 to 387).\<close>

definition initChatCall ::
  "('s, 'p) chats_create \<Rightarrow> ('s, 'p) send_message \<Rightarrow> message \<Rightarrow> (response, ('s, 'p) world) api" where
  "initChatCall create sendMessage msg m w =
     (case create m ''Helpful AI Tutor. Use Google Search for facts.'' (provider w) of
        (Inl e, p1) \<Rightarrow> (Inl e, w\<lparr>provider := p1\<rparr>)
      | (Inr session, p1) \<Rightarrow>
          (let w1 = w\<lparr>chatSession := Some session, chatModelUsed := m, provider := p1\<rparr>
           in case sendMessage session msg p1 of
                (r, p2) \<Rightarrow> (r, w1\<lparr>provider := p2\<rparr>)))"

text \<open>\<open>initializeChat\<close>: line 362 builds the client before anything else.\<close>

definition initializeChat ::
  "'p get_ai \<Rightarrow> ('s, 'p) chats_create \<Rightarrow> ('s, 'p) send_message \<Rightarrow> input_type \<Rightarrow> string \<Rightarrow>
   string option \<Rightarrow> ('s, 'p) world \<Rightarrow> (js_error + response tiered) \<times> ('s, 'p) world" where
  "initializeChat getAI create sendMessage ty dat textContext w =
     (case getAI (provider w) of
        Some e \<Rightarrow> (Inl e, w)
      | None \<Rightarrow>
          callAI ''Init Chat''
            (initChatCall create sendMessage (chatFirstMessage ty dat textContext))
            MODEL_FAST None w)"

definition sourcesOrUndefined :: "jsval list \<Rightarrow> jsval" where
  "sourcesOrUndefined sources = (if length sources \<noteq> 0 then JArr sources else JUndefined)"

text \<open>The object returned at lines 401 to 405.\<close>

definition chatReply :: "response \<Rightarrow> string \<Rightarrow> jsval" where
  "chatReply result modelUsed =
     JObj [(''text'', JStr (orEmpty (text' result))),
           (''sources'', sourcesOrUndefined (collectSources (groundingChunks result))),
           (''modelUsed'', JStr modelUsed)]"

definition sendChatMessage ::
  "('s, 'p) send_message \<Rightarrow> string \<Rightarrow> ('s, 'p) world \<Rightarrow> (js_error + jsval) \<times> ('s, 'p) world" where
  "sendChatMessage sendMessage msg w =
     (case chatSession w of
        None \<Rightarrow> (Inl (mkError ''Chat not initialized''), w)
      | Some session \<Rightarrow>
          (case sendMessage session (Plain msg) (provider w) of
             (Inl e, p') \<Rightarrow> (Inl e, w\<lparr>provider := p'\<rparr>)
           | (Inr result, p') \<Rightarrow>
               (Inr (chatReply result (chatModelUsed w)), w\<lparr>provider := p'\<rparr>)))"

text \<open>
  The first message of an exam (lines 822 to 836). \<open>fileData\<close> is the pair of the data
  and the MIME type.
\<close>

definition examFirstMessage :: "bool \<Rightarrow> (string \<times> string) option \<Rightarrow> message" where
  "examFirstMessage strictMode fileData =
     Parts ((case fileData of
               Some (dat, mimeType) \<Rightarrow>
                 [if startsWith mimeType ''image/'' then InlineData dat mimeType
                  else TextPart (''Context Material:'' @ [CHR 0x0A] @ dat),
                  TextPart ''Here is the reference material.'']
             | None \<Rightarrow> [])
            @ [TextPart (if strictMode then ''Start the exam immediately with Question 1.''
                         else ''Hello, I am ready to study. Start with the first question.'')])"

definition startExamCall ::
  "('s, 'p) chats_create \<Rightarrow> ('s, 'p) send_message \<Rightarrow> string \<Rightarrow> message \<Rightarrow> (string, ('s, 'p) world) api" where
  "startExamCall create sendMessage systemPrompt msg m w =
     (case create m systemPrompt (provider w) of
        (Inl e, p1) \<Rightarrow> (Inl e, w\<lparr>provider := p1\<rparr>)
      | (Inr session, p1) \<Rightarrow>
          (let w1 = w\<lparr>examSession := Some session, examModelUsed := m, provider := p1\<rparr>
           in case sendMessage session msg p1 of
                (Inl e, p2) \<Rightarrow> (Inl e, w1\<lparr>provider := p2\<rparr>)
              | (Inr result, p2) \<Rightarrow>
                  (Inr (case text' result of
                          Some t \<Rightarrow> if t \<noteq> [] then t else ''Ready.''
                        | None \<Rightarrow> ''Ready.''), w1\<lparr>provider := p2\<rparr>)))"

text \<open>
  \<open>startExamSession\<close>. Line 755 builds the client first. \<open>systemPrompt\<close> is the
  instruction text that lines 757 to 808 assemble from the configuration.
\<close>

definition startExamSession ::
  "'p get_ai \<Rightarrow> ('s, 'p) chats_create \<Rightarrow> ('s, 'p) send_message \<Rightarrow> string \<Rightarrow> bool \<Rightarrow>
   (string \<times> string) option \<Rightarrow> ('s, 'p) world \<Rightarrow> (js_error + jsval) \<times> ('s, 'p) world" where
  "startExamSession getAI create sendMessage systemPrompt strictMode fileData w =
     (case getAI (provider w) of
        Some e \<Rightarrow> (Inl e, w)
      | None \<Rightarrow>
          (case callAI ''Start Exam''
                  (startExamCall create sendMessage systemPrompt
                     (examFirstMessage strictMode fileData))
                  MODEL_FAST None w of
             (Inl e, w') \<Rightarrow> (Inl e, w')
           | (Inr res, w') \<Rightarrow>
               (Inr (JObj [(''text'', JStr (output' res)), (''modelUsed'', JStr (model res))]),
                w')))"

text \<open>The object returned at lines 857 to 861.\<close>

definition examReply :: "response \<Rightarrow> string \<Rightarrow> jsval" where
  "examReply result modelUsed =
     JObj [(''text'', JStr (orEmpty (text' result))),
           (''modelUsed'', JStr modelUsed),
           (''sources'', sourcesOrUndefined (collectSources (groundingChunks result)))]"

definition sendExamMessage ::
  "('s, 'p) send_message \<Rightarrow> string \<Rightarrow> ('s, 'p) world \<Rightarrow> (js_error + jsval) \<times> ('s, 'p) world" where
  "sendExamMessage sendMessage txt w =
     (case examSession w of
        None \<Rightarrow> (Inl (mkError ''Exam not started''), w)
      | Some session \<Rightarrow>
          (case sendMessage session (Plain txt) (provider w) of
             (Inl e, p') \<Rightarrow> (Inl e, w\<lparr>provider := p'\<rparr>)
           | (Inr result, p') \<Rightarrow>
               (Inr (examReply result (examModelUsed w)), w\<lparr>provider := p'\<rparr>)))"

section \<open>Notions used in the statements\<close>




text \<open>
  What a call without a fallback tier throws when its operation throws \<open>e\<close>: what the
  inner handler throws, or the TypeError of line 92 when that is \<open>null\<close> or
  \<open>undefined\<close>.
\<close>

definition propagated :: "js_error \<Rightarrow> js_error" where
  "propagated e = (case rethrown e of Thrown eo \<Rightarrow> Thrown eo | _ \<Rightarrow> TypeError)"








text \<open>Sample data: a problem record as the analysis schema shapes it.\<close>

definition problemRecord :: "string \<Rightarrow> jsval \<Rightarrow> string \<Rightarrow> rat \<Rightarrow> jsval" where
  "problemRecord statement answer st score =
     JObj [(''problem_statement'', JStr statement),
           (''student_answer'', answer),
           (''complete_solution'', JStr ''worked solution''),
           (''step_by_step'', JArr []),
           (''key_concepts'', JArr []),
           (''validation_check'',
              JObj [(''status'', JStr st), (''confidence_score'', JNum score)])]"

text \<open>
  A sample provider: the client is always built, a session is the number of the request
  that created it, and \<open>sendMessage\<close> throws on the requests numbered in \<open>failAt\<close>.
\<close>

definition readyAI :: "nat get_ai" where
  "readyAI p = None"

definition countingCreate :: "(nat, nat) chats_create" where
  "countingCreate m systemInstruction p = (Inr p, Suc p)"

definition flakySend :: "nat list \<Rightarrow> (nat, nat) send_message" where
  "flakySend failAt session msg p =
     ((if p \<in> set failAt then Inl (mkError ''fetch failed'')
       else Inr \<lparr>text' = Some ''ok'', groundingChunks = []\<rparr>), Suc p)"

definition textResponse :: "string \<Rightarrow> response" where
  "textResponse t = \<lparr>text' = Some t, groundingChunks = []\<rparr>"

text \<open>Sample operations: one that answers with a text, one that throws.\<close>

definition answering :: "string \<Rightarrow> (response, 'w) api" where
  "answering t m w = (Inr (textResponse t), w)"

definition failing :: "js_error \<Rightarrow> ('a, 'w) api" where
  "failing e m w = (Inl e, w)"

text \<open>Sample texts of the math pipeline.\<close>

definition solveText :: string where
  "solveText = ''{\"explanation\":\"sum\",\"pythonCode\":\"print(1+1)\",\"result\":\"2\"}''"

definition repairText :: string where
  "repairText = ''{\"valid\": false, \"corrected_response\": {\"explanation\":\"sum\",\"pythonCode\":\"print(2+2)\",\"result\":\"4\"}}''"

text \<open>Sample texts of the homework pipeline: three records, the second at confidence 60.\<close>

definition tuningText :: string where
  "tuningText = ''{\"subject\":\"Math\",\"topic\":\"Addition\",\"has_student_solution\":true,\"grading_rules\":[\"show work\"]}''"

definition analysisText :: string where
  "analysisText = ''{\"problems\":[{\"problem_statement\":\"1+1\",\"student_answer\":\"2\",\"complete_solution\":\"worked solution\",\"step_by_step\":[],\"key_concepts\":[],\"validation_check\":{\"status\":\"verified\",\"confidence_score\":95}},{\"problem_statement\":\"2+2\",\"student_answer\":\"5\",\"complete_solution\":\"worked solution\",\"step_by_step\":[],\"key_concepts\":[],\"validation_check\":{\"status\":\"verified\",\"confidence_score\":60}},{\"problem_statement\":\"3+3\",\"student_answer\":\"6\",\"complete_solution\":\"worked solution\",\"step_by_step\":[],\"key_concepts\":[],\"validation_check\":{\"status\":\"verified\",\"confidence_score\":90}}]}''"

definition sampleProblems :: "jsval list" where
  "sampleProblems =
     [problemRecord ''1+1'' (JStr ''2'') ''verified'' 95,
      problemRecord ''2+2'' (JStr ''5'') ''verified'' 60,
      problemRecord ''3+3'' (JStr ''6'') ''verified'' 90]"



definition sampleContext :: jsval where
  "sampleContext =
     JObj [(''subject'', JStr ''Math''), (''topic'', JStr ''Addition''),
           (''has_student_solution'', JBool True),
           (''grading_rules'', JArr [JStr ''show work''])]"

text \<open>The analysis that the response reports for a sample record.\<close>

definition sampleAnalysis :: "nat \<Rightarrow> string \<Rightarrow> string \<Rightarrow> rat \<Rightarrow> jsval" where
  "sampleAnalysis n statement answer score =
     JObj [(''id'', JNum (of_nat n)), (''subject'', JStr ''Math''),
           (''topic'', JStr ''Addition''), (''isCorrect'', JUndefined),
           (''boundingBox'', JUndefined), (''explanation'', JStr ''worked solution''),
           (''steps'', JArr []), (''problemStatement'', JStr statement),
           (''keyConcepts'', JArr []), (''studentAnswer'', JStr answer),
           (''visualAidPrompt'', JUndefined),
           (''validation'',
              JObj [(''status'', JStr ''verified''), (''confidenceScore'', JNum score),
                    (''renderingNote'', JUndefined)])]"

text \<open>
  Histories of the registry: the calls made on the two slots, in order, each run for
  the state it leaves.
\<close>

datatype action =
    InitChat input_type string "string option"
  | SendChat string
  | StartExam string bool "(string \<times> string) option"
  | SendExam string

fun perform ::
  "'p get_ai \<Rightarrow> ('s, 'p) chats_create \<Rightarrow> ('s, 'p) send_message \<Rightarrow> ('s, 'p) world \<Rightarrow> action \<Rightarrow>
   ('s, 'p) world" where
  "perform getAI create sendMessage w (InitChat ty dat textContext) =
     snd (initializeChat getAI create sendMessage ty dat textContext w)"
| "perform getAI create sendMessage w (SendChat msg) = snd (sendChatMessage sendMessage msg w)"
| "perform getAI create sendMessage w (StartExam systemPrompt strictMode fileData) =
     snd (startExamSession getAI create sendMessage systemPrompt strictMode fileData w)"
| "perform getAI create sendMessage w (SendExam txt) = snd (sendExamMessage sendMessage txt w)"

definition run ::
  "'p get_ai \<Rightarrow> ('s, 'p) chats_create \<Rightarrow> ('s, 'p) send_message \<Rightarrow> action list \<Rightarrow> ('s, 'p) world \<Rightarrow>
   ('s, 'p) world" where
  "run getAI create sendMessage acts w = foldl (perform getAI create sendMessage) w acts"

fun startsChat :: "action \<Rightarrow> bool" where
  "startsChat (InitChat ty dat textContext) = True"
| "startsChat _ = False"

fun startsExam :: "action \<Rightarrow> bool" where
  "startsExam (StartExam systemPrompt strictMode fileData) = True"
| "startsExam _ = False"

text \<open>
  What a call leaves in the module variables: it changes the provider only, or it is a
  start and fills its slot with the fast tier recorded.
\<close>

definition touched :: "('s, 'p) world \<Rightarrow> ('s, 'p) world \<Rightarrow> action \<Rightarrow> bool" where
  "touched w w' a =
     ((\<exists>p'. w' = w\<lparr>provider := p'\<rparr>)
      \<or> (startsChat a \<and>
           (\<exists>session p'. w' = w\<lparr>chatSession := Some session, chatModelUsed := MODEL_FAST,
                                 provider := p'\<rparr>))
      \<or> (startsExam a \<and>
           (\<exists>session p'. w' = w\<lparr>examSession := Some session, examModelUsed := MODEL_FAST,
                                 provider := p'\<rparr>)))"

section \<open>Tiered caller: properties\<close>















section \<open>Response sanitizer: properties\<close>


lemma indexOf_notin: "c \<notin> set xs \<Longrightarrow> indexOf xs c = - 1"
  by (induction xs) auto

lemma indexOf_range: "c \<in> set xs \<Longrightarrow> 0 \<le> indexOf xs c \<and> indexOf xs c < int (length xs)"
  by (induction xs) (auto simp: Let_def)

lemma indexOf_eq_m1: "indexOf xs c = - 1 \<longleftrightarrow> c \<notin> set xs"
proof
  assume "indexOf xs c = - 1"
  then show "c \<notin> set xs" using indexOf_range [of c xs] by auto
qed (rule indexOf_notin)

lemma indexOf_append_in: "c \<in> set xs \<Longrightarrow> indexOf (xs @ ys) c = indexOf xs c"
  by (induction xs) (auto simp: Let_def)

lemma indexOf_append_notin:
  "c \<notin> set xs \<Longrightarrow> c \<in> set ys \<Longrightarrow> indexOf (xs @ ys) c = int (length xs) + indexOf ys c"
  by (induction xs) (auto simp: Let_def indexOf_eq_m1)

lemma lastIndexOf_eq_m1: "lastIndexOf s c = - 1 \<longleftrightarrow> c \<notin> set s"
proof (cases "c \<in> set s")
  case True
  then have "c \<in> set (rev s)" by simp
  from indexOf_range [OF this] True show ?thesis
    by (auto simp: lastIndexOf_def Let_def)
next
  case False
  then show ?thesis by (simp add: lastIndexOf_def indexOf_notin)
qed

lemma lastIndexOf_range:
  "c \<in> set s \<Longrightarrow> 0 \<le> lastIndexOf s c \<and> lastIndexOf s c < int (length s)"
proof -
  assume "c \<in> set s"
  then have "c \<in> set (rev s)" by simp
  from indexOf_range [OF this] show ?thesis
    by (auto simp: lastIndexOf_def Let_def)
qed

lemma lastIndexOf_append_in:
  "c \<in> set ys \<Longrightarrow> lastIndexOf (xs @ ys) c = int (length xs) + lastIndexOf ys c"
proof -
  assume a: "c \<in> set ys"
  then have r: "c \<in> set (rev ys)" by simp
  have "indexOf (rev ys @ rev xs) c = indexOf (rev ys) c" by (rule indexOf_append_in [OF r])
  moreover have "indexOf (rev ys) c \<noteq> - 1" using r by (simp add: indexOf_eq_m1)
  ultimately show ?thesis by (simp add: lastIndexOf_def Let_def)
qed

lemma lastIndexOf_append_notin:
  "c \<notin> set ys \<Longrightarrow> lastIndexOf (xs @ ys) c = lastIndexOf xs c"
proof (cases "c \<in> set xs")
  case True
  assume a: "c \<notin> set ys"
  have "indexOf (rev ys @ rev xs) c = int (length (rev ys)) + indexOf (rev xs) c"
    by (rule indexOf_append_notin) (use a True in auto)
  moreover have "indexOf (rev xs) c \<noteq> - 1" using True by (simp add: indexOf_eq_m1)
  moreover have "0 \<le> indexOf (rev xs) c" using indexOf_range [of c "rev xs"] True by simp
  ultimately show ?thesis by (simp add: lastIndexOf_def Let_def)
next
  case False
  assume "c \<notin> set ys"
  with False show ?thesis using lastIndexOf_eq_m1 [of "xs @ ys" c] lastIndexOf_eq_m1 [of xs c]
    by simp
qed

lemma substring_window:
  assumes "0 \<le> i" "i < int (length C)" "0 \<le> j" "j < int (length C)"
  shows "substring (pre @ C @ post) (int (length pre) + i) (int (length pre) + j + 1)
           = substring C i (j + 1)"
proof -
  obtain a b where ab: "i = int a" "j = int b" using assms(1,3) by (metis nonneg_int_cases)
  have la: "a < length C" and lb: "b < length C" using assms(2,4) ab by auto
  have n1: "nat (int (length pre) + int a) = length pre + a" by simp
  have n2: "nat (int (length pre) + int b + 1) = length pre + b + 1" by simp
  have n3: "nat (int b + 1) = b + 1" by simp
  show ?thesis
    unfolding substring_def ab n1 n2 n3 Let_def
    using la lb by (auto simp: min_def max_def)
qed

lemma primaryParse_nobrace:
  "CHR ''{'' \<notin> set txt \<or> CHR ''}'' \<notin> set txt \<Longrightarrow> primaryParse txt = None"
  by (auto simp: primaryParse_def Let_def indexOf_eq_m1 lastIndexOf_eq_m1)

lemma primaryParse_window:
  assumes "CHR ''{'' \<notin> set pre" "CHR ''}'' \<notin> set post"
    and "CHR ''{'' \<in> set C" "CHR ''}'' \<in> set C"
  shows "primaryParse (pre @ C @ post) = primaryParse C"
proof -
  have i: "indexOf (pre @ C @ post) (CHR ''{'') = int (length pre) + indexOf C (CHR ''{'')"
    using assms(1,3) by (simp add: indexOf_append_notin indexOf_append_in)
  have "lastIndexOf (pre @ C @ post) (CHR ''}'') = lastIndexOf (pre @ C) (CHR ''}'')"
    using lastIndexOf_append_notin [OF assms(2), of "pre @ C"] by simp
  then have j: "lastIndexOf (pre @ C @ post) (CHR ''}'') = int (length pre) + lastIndexOf C (CHR ''}'')"
    using assms(4) by (simp add: lastIndexOf_append_in)
  note ri = indexOf_range [OF assms(3)] and rj = lastIndexOf_range [OF assms(4)]
  have w: "substring (pre @ C @ post) (int (length pre) + indexOf C (CHR ''{''))
             (int (length pre) + lastIndexOf C (CHR ''}'') + 1)
           = substring C (indexOf C (CHR ''{'')) (lastIndexOf C (CHR ''}'') + 1)"
    by (rule substring_window) (use ri rj in auto)
  show ?thesis
    unfolding primaryParse_def i j Let_def using ri rj w by (simp add: add.assoc)
qed

lemma primaryParse_object:
  assumes "obj = CHR ''{'' # body @ [CHR ''}'']"
  shows "primaryParse obj = (case JSON_parse obj of Inr v \<Rightarrow> Some v | Inl e \<Rightarrow> None)"
proof -
  have i: "indexOf obj (CHR ''{'') = 0" using assms by simp
  have "lastIndexOf ((CHR ''{'' # body) @ [CHR ''}'']) (CHR ''}'') = int (length (CHR ''{'' # body)) + lastIndexOf [CHR ''}''] (CHR ''}'')"
    by (rule lastIndexOf_append_in) simp
  then have j: "lastIndexOf obj (CHR ''}'') = int (length obj) - 1"
    using assms by (simp add: lastIndexOf_def)
  have "substring obj 0 (int (length obj) - 1 + 1) = obj"
    by (simp add: substring_def)
  moreover have "obj \<noteq> []" using assms by simp
  ultimately show ?thesis unfolding primaryParse_def i j Let_def by simp
qed

lemma dropWhile_all: "list_all P ws \<Longrightarrow> \<not> P x \<Longrightarrow> dropWhile P (ws @ x # xs) = x # xs"
  by (induction ws) auto

lemma trim_padded:
  assumes "list_all isWhiteSpace ws1" "list_all isWhiteSpace ws2"
    and "\<not> isWhiteSpace a" "\<not> isWhiteSpace z"
  shows "trim (ws1 @ (a # mid @ [z]) @ ws2) = a # mid @ [z]"
proof -
  have 1: "dropWhile isWhiteSpace (ws1 @ (a # mid @ [z]) @ ws2) = a # mid @ [z] @ ws2"
    using dropWhile_all [OF assms(1,3), of "mid @ [z] @ ws2"] by simp
  have 2: "list_all isWhiteSpace (rev ws2)" using assms(2) by (simp add: list_all_iff)
  have "rev (a # mid @ [z] @ ws2) = rev ws2 @ z # rev mid @ [a]" by simp
  then have "dropWhile isWhiteSpace (rev (a # mid @ [z] @ ws2)) = z # rev mid @ [a]"
    using dropWhile_all [OF 2 assms(4), of "rev mid @ [a]"] by simp
  then show ?thesis unfolding trim_def 1 by simp
qed

lemma stripOpeningFence_tagged:
  "tag = [] \<or> tag = ''json'' \<Longrightarrow> stripOpeningFence (fence @ tag @ CHR 0x0A # rest) = rest"
  by (auto simp: stripOpeningFence_def fence_def startsWith_def Let_def)

lemma stripClosingFence_closed:
  "stripClosingFence (C @ CHR 0x0A # fence) = C"
  by (simp add: stripClosingFence_def fence_def Let_def butlast_append)

lemma stripFences_fenced:
  assumes "list_all isWhiteSpace ws1" "list_all isWhiteSpace ws2"
    and "tag = [] \<or> tag = ''json''"
  shows "stripFences (ws1 @ fence @ tag @ [CHR 0x0A] @ C @ [CHR 0x0A] @ fence @ ws2) = C"
proof -
  let ?inner = "[CHR 0x60, CHR 0x60] @ tag @ [CHR 0x0A] @ C @ [CHR 0x0A] @ [CHR 0x60, CHR 0x60]"
  have shape: "fence @ tag @ [CHR 0x0A] @ C @ [CHR 0x0A] @ fence = CHR 0x60 # ?inner @ [CHR 0x60]"
    by (simp add: fence_def)
  have t: "trim (ws1 @ (CHR 0x60 # ?inner @ [CHR 0x60]) @ ws2) = CHR 0x60 # ?inner @ [CHR 0x60]"
    by (rule trim_padded [OF assms(1,2)]) (simp_all add: isWhiteSpace_def)
  have t': "trim (ws1 @ fence @ tag @ [CHR 0x0A] @ C @ [CHR 0x0A] @ fence @ ws2)
              = fence @ tag @ CHR 0x0A # (C @ CHR 0x0A # fence)"
    using t by (simp add: fence_def)
  have s: "startsWith (fence @ tag @ CHR 0x0A # (C @ CHR 0x0A # fence)) fence"
    by (simp add: startsWith_def)
  show ?thesis
    unfolding stripFences_def t' Let_def using s
    by (simp add: stripOpeningFence_tagged [OF assms(3)] stripClosingFence_closed)
qed

lemma whitespace_no_brace:
  "list_all isWhiteSpace ws \<Longrightarrow> CHR ''{'' \<notin> set ws \<and> CHR ''}'' \<notin> set ws"
proof -
  assume a: "list_all isWhiteSpace ws"
  have "\<not> isWhiteSpace (CHR ''{'')" and "\<not> isWhiteSpace (CHR ''}'')"
    by (simp_all add: isWhiteSpace_def)
  with a show ?thesis unfolding list_all_iff by blast
qed

lemma primaryParse_embedded:
  assumes "CHR ''{'' \<notin> set pre" "CHR ''}'' \<notin> set pre"
    and "CHR ''{'' \<notin> set post" "CHR ''}'' \<notin> set post"
  shows "primaryParse (pre @ C @ post) = primaryParse C"
proof (cases "CHR ''{'' \<in> set C \<and> CHR ''}'' \<in> set C")
  case True
  then show ?thesis using primaryParse_window [of pre post C] assms by blast
next
  case False
  then have "CHR ''{'' \<notin> set (pre @ C @ post) \<or> CHR ''}'' \<notin> set (pre @ C @ post)"
    using assms by auto
  then have "primaryParse (pre @ C @ post) = None" by (rule primaryParse_nobrace)
  moreover have "primaryParse C = None" using False by (auto intro: primaryParse_nobrace)
  ultimately show ?thesis by simp
qed

lemma cleanAndParseJSON_returns: "\<exists>v. cleanAndParseJSON t = Inr v"
  by (auto simp: cleanAndParseJSON_def looseParse_def split: option.splits sum.splits)

text \<open>
  C6. \<open>cleanAndParseJSON\<close> never throws: on every input it returns a value. On absent
  input it returns the empty object, and so it does when the primary extraction yields
  nothing and the text left by the fence cleaning does not parse.
\<close>

theorem cleanAndParseJSON_never_throws:
  "(\<exists>v. cleanAndParseJSON t = Inr v) \<and>
   cleanAndParseJSON None = Inr (JObj []) \<and>
   (primaryParse txt = None \<and> JSON_parse (stripFences txt) = Inl e
      \<longrightarrow> cleanAndParseJSON (Some txt) = Inr (JObj []))"
  by (auto simp: cleanAndParseJSON_def looseParse_def split: option.splits sum.splits)

theorem cleanAndParseJSON_never_throws_witness:
  "primaryParse ''{not json}'' = None \<and> JSON_parse (stripFences ''{not json}'') = Inl SyntaxError \<and>
   cleanAndParseJSON (Some ''{not json}'') = Inr (JObj [])"
proof -
  have 1: "primaryParse ''{not json}'' = None" by code_simp
  have 2: "JSON_parse (stripFences ''{not json}'') = Inl SyntaxError" by code_simp
  show ?thesis
    using cleanAndParseJSON_never_throws [of "Some ''{not json}''" "''{not json}''" SyntaxError] 1 2
    by simp
qed

text \<open>
  C7 as stated fails: prose that itself holds a brace moves the boundaries. In
  \<open>Answer: {"a":1} as in {x}\<close> the span \<open>{"a":1}\<close> is valid JSON, the substring from
  the first \<open>{\<close> to the last \<open>}\<close> is not, and the result is the empty object.
\<close>

theorem cleanAndParseJSON_prose_counterexample:
  "JSON_parse ''{\"a\":1}'' = Inr (JObj [(''a'', JNum 1)]) \<and>
   cleanAndParseJSON (Some (''Answer: '' @ ''{\"a\":1}'' @ '' as in {x}'')) = Inr (JObj []) \<and>
   JObj [] \<noteq> JObj [(''a'', JNum 1)]"
  by code_simp

text \<open>
  C7, amended. For all text made of a span that runs from \<open>{\<close> to \<open>}\<close> and is valid
  JSON, preceded by prose without \<open>{\<close> and followed by prose without \<open>}\<close>,
  \<open>cleanAndParseJSON\<close> returns the parsed span, by the primary strategy.
\<close>

theorem cleanAndParseJSON_prose:
  assumes "CHR ''{'' \<notin> set pre" and "CHR ''}'' \<notin> set post"
    and "JSON_parse (CHR ''{'' # body @ [CHR ''}'']) = Inr v"
  shows "cleanAndParseJSON (Some (pre @ (CHR ''{'' # body @ [CHR ''}'']) @ post)) = Inr v"
proof -
  let ?obj = "CHR ''{'' # body @ [CHR ''}'']"
  have "primaryParse (pre @ ?obj @ post) = primaryParse ?obj"
    by (rule primaryParse_window [OF assms(1,2)]) simp_all
  also have "\<dots> = Some v"
    using primaryParse_object [of ?obj body] assms(3) by simp
  finally show ?thesis by (simp add: cleanAndParseJSON_def)
qed

theorem cleanAndParseJSON_prose_witness:
  "cleanAndParseJSON (Some (''Sure! Here is the JSON: '' @ (CHR ''{'' # ''\"a\":1'' @ [CHR ''}'']) @ '' Hope it helps.''))
     = Inr (JObj [(''a'', JNum 1)])"
proof -
  have p: "JSON_parse (CHR ''{'' # ''\"a\":1'' @ [CHR ''}'']) = Inr (JObj [(''a'', JNum 1)])"
    by code_simp
  show ?thesis
    by (rule cleanAndParseJSON_prose [OF _ _ p]) simp_all
qed

text \<open>
  C8 as stated fails twice. A fenced array of one object comes back as that object,
  since the primary strategy runs first and finds it; and a fenced array under the tag
  \<open>js\<close> comes back as the empty object, since only the tag \<open>json\<close> is removed.
\<close>

theorem cleanAndParseJSON_fence_counterexample:
  "JSON_parse ''[{\"a\":1}]'' = Inr (JArr [JObj [(''a'', JNum 1)]]) \<and>
   cleanAndParseJSON (Some (fence @ ''json'' @ [CHR 0x0A] @ ''[{\"a\":1}]'' @ [CHR 0x0A] @ fence))
     = Inr (JObj [(''a'', JNum 1)]) \<and>
   JObj [(''a'', JNum 1)] \<noteq> JArr [JObj [(''a'', JNum 1)]] \<and>
   JSON_parse ''[1,2]'' = Inr (JArr [JNum 1, JNum 2]) \<and>
   cleanAndParseJSON (Some (fence @ ''js'' @ [CHR 0x0A] @ ''[1,2]'' @ [CHR 0x0A] @ fence))
     = Inr (JObj []) \<and>
   JObj [] \<noteq> JArr [JNum 1, JNum 2]"
  by code_simp

text \<open>
  C8, amended. For all text made of an opening fence with no tag or the tag \<open>json\<close>, a
  line feed, content that is valid JSON, a line feed and a closing fence, with white
  space around, \<open>cleanAndParseJSON\<close> returns the parsed content, provided the primary
  strategy on the content (the substring from its first \<open>{\<close> to its last \<open>}\<close>) yields
  nothing or that same value, as it does for an object and for content without braces.
\<close>

theorem cleanAndParseJSON_fence:
  assumes "list_all isWhiteSpace ws1" and "list_all isWhiteSpace ws2"
    and "tag = [] \<or> tag = ''json''"
    and "JSON_parse C = Inr v"
    and "primaryParse C = None \<or> primaryParse C = Some v"
  shows "cleanAndParseJSON (Some (ws1 @ fence @ tag @ [CHR 0x0A] @ C @ [CHR 0x0A] @ fence @ ws2)) = Inr v"
proof -
  define pre where "pre = ws1 @ fence @ tag @ [CHR 0x0A]"
  define post where "post = [CHR 0x0A] @ fence @ ws2"
  define whole where "whole = ws1 @ fence @ tag @ [CHR 0x0A] @ C @ [CHR 0x0A] @ fence @ ws2"
  have shape: "whole = pre @ C @ post" by (simp add: whole_def pre_def post_def)
  have tagfree: "CHR ''{'' \<notin> set tag \<and> CHR ''}'' \<notin> set tag"
    using assms(3) by auto
  have pre: "CHR ''{'' \<notin> set pre" "CHR ''}'' \<notin> set pre"
    using whitespace_no_brace [OF assms(1)] tagfree by (simp_all add: pre_def fence_def)
  have post: "CHR ''{'' \<notin> set post" "CHR ''}'' \<notin> set post"
    using whitespace_no_brace [OF assms(2)] by (simp_all add: post_def fence_def)
  have prim: "primaryParse whole = primaryParse C"
    unfolding shape by (rule primaryParse_embedded [OF pre post])
  have "stripFences whole = C"
    unfolding whole_def by (rule stripFences_fenced [OF assms(1,2,3)])
  then have loose: "looseParse whole = Inr v"
    by (simp add: looseParse_def assms(4))
  have ne: "whole \<noteq> []" by (simp add: whole_def fence_def)
  have "cleanAndParseJSON (Some whole) = Inr v"
  proof (cases "primaryParse C")
    case None
    then show ?thesis using prim loose ne by (simp add: cleanAndParseJSON_def)
  next
    case (Some u)
    then have "u = v" using assms(5) by simp
    then show ?thesis using Some prim ne by (simp add: cleanAndParseJSON_def)
  qed
  then show ?thesis by (simp only: whole_def)
qed

theorem cleanAndParseJSON_fence_witness:
  "cleanAndParseJSON (Some ('' '' @ fence @ ''json'' @ [CHR 0x0A] @ ''[1,2]'' @ [CHR 0x0A] @ fence @ [CHR 0x0A]))
     = Inr (JArr [JNum 1, JNum 2]) \<and>
   cleanAndParseJSON (Some ([] @ fence @ [] @ [CHR 0x0A] @ ''{\"a\":1}'' @ [CHR 0x0A] @ fence @ []))
     = Inr (JObj [(''a'', JNum 1)])"
proof -
  have p1: "JSON_parse ''[1,2]'' = Inr (JArr [JNum 1, JNum 2])" by code_simp
  have q1: "primaryParse ''[1,2]'' = None" by code_simp
  have p2: "JSON_parse ''{\"a\":1}'' = Inr (JObj [(''a'', JNum 1)])" by code_simp
  have q2: "primaryParse ''{\"a\":1}'' = Some (JObj [(''a'', JNum 1)])" by code_simp
  have w1: "list_all isWhiteSpace '' ''" "list_all isWhiteSpace [CHR 0x0A]" "list_all isWhiteSpace []"
    by (simp_all add: isWhiteSpace_def)
  show ?thesis
    using cleanAndParseJSON_fence [OF w1(1) w1(2) _ p1, of "''json''"]
          cleanAndParseJSON_fence [OF w1(3) w1(3) _ p2, of "[]"] q1 q2
    by simp
qed

section \<open>Math solving: properties\<close>

lemma map_of_setProp: "map_of (setProp k v ms) k' = (if k' = k then Some v else map_of ms k')"
  by (induction ms) auto

lemma repairedResult_flag: "getProp (repairedResult cr m srcs) ''wasAutoRepaired'' = JBool True"
  by (simp add: repairedResult_def map_of_setProp)

lemma firstPassResult_flag: "getProp (firstPassResult fp m srcs) ''wasAutoRepaired'' = JBool False"
  by (simp add: firstPassResult_def map_of_setProp)

lemma repairedResult_fields:
  "k \<noteq> ''modelUsed'' \<Longrightarrow> k \<noteq> ''sources'' \<Longrightarrow> k \<noteq> ''wasAutoRepaired'' \<Longrightarrow>
   getProp (repairedResult (JObj R) m srcs) k = getProp (JObj R) k"
  by (simp add: repairedResult_def map_of_setProp)

lemma firstPassResult_fields:
  "k \<noteq> ''modelUsed'' \<Longrightarrow> k \<noteq> ''sources'' \<Longrightarrow> k \<noteq> ''wasAutoRepaired'' \<Longrightarrow>
   getProp (firstPassResult (JObj F) m srcs) k = getProp (JObj F) k"
  by (simp add: firstPassResult_def map_of_setProp)

lemma member_not_nullish: "\<not> nullish v \<Longrightarrow> member v k = Inr (getProp v k)"
  by (simp add: member_def)

lemma getProp_nullish: "nullish v \<Longrightarrow> getProp v k = JUndefined"
  by (auto simp: nullish_def)

text \<open>The verification stage, by what the verification call and its text give.\<close>

lemma verifyStage_throws:
  "callAI ''Math Verification'' verifyCall MODEL_FAST None w = (Inl e, w') \<Longrightarrow>
   verifyStage verifyCall m srcs w = (Inl e, w')"
  by (simp add: verifyStage_def)

lemma verifyStage_returns:
  assumes "callAI ''Math Verification'' verifyCall MODEL_FAST None w = (Inr verifyRes, w')"
    and "cleanAndParseJSON (text' (output' verifyRes)) = Inr verifyData"
  shows "verifyStage verifyCall m srcs w =
           ((if nullish verifyData then Inl TypeError
             else if getProp verifyData ''valid'' = JBool False
                      \<and> truthy (getProp verifyData ''corrected_response'')
                  then Inr (Some (repairedResult (getProp verifyData ''corrected_response'') m srcs))
                  else Inr None), w')"
proof -
  have eq: "strictEq v (JBool False) = (v = JBool False)" for v
    by (cases v) auto
  show ?thesis
    using assms by (simp add: verifyStage_def bindE_def member_def eq)
qed

lemma solveMath_after_first_pass:
  assumes "mathSearch searchCall useSearch w = (Inr (contextInfo, sources), w1)"
    and "callAI ''Math Lab'' (solveCall contextInfo) MODEL_SMART (Some MODEL_FAST) w1 = (Inr res, w2)"
    and "cleanAndParseJSON (text' (output' res)) = Inr firstPassData"
    and "\<not> nullish firstPassData"
    and "verifyStage (verifyCall firstPassData) (model res) sources w2 = (vs, w3)"
  shows "solveMathWithCode searchCall solveCall verifyCall useSearch w =
           (Inr (case vs of Inr (Some repaired) \<Rightarrow> repaired
                        | _ \<Rightarrow> firstPassResult firstPassData (model res) sources), w3)"
  using assms
  by (simp add: solveMathWithCode_def bindE_def member_def split: sum.splits option.splits)

text \<open>
  C3. Once the solve stage has given its first-pass data: if the verification data has
  \<open>valid\<close> false and an object \<open>R\<close> as \<open>corrected_response\<close>, the result is \<open>R\<close> with
  \<open>modelUsed\<close>, \<open>sources\<close> and \<open>wasAutoRepaired = true\<close> set over it; if the
  verification call throws or the data has \<open>valid\<close> true, the result is the first-pass data
  with these three set and \<open>wasAutoRepaired = false\<close>. In every case the function returns,
  and \<open>wasAutoRepaired\<close> is true exactly when the result was built from the corrected
  response.
\<close>

theorem solveMathWithCode_resolution:
  assumes "mathSearch searchCall useSearch w = (Inr (contextInfo, sources), w1)"
    and "callAI ''Math Lab'' (solveCall contextInfo) MODEL_SMART (Some MODEL_FAST) w1 = (Inr res, w2)"
    and "cleanAndParseJSON (text' (output' res)) = Inr firstPassData"
    and "\<not> nullish firstPassData"
    and "callAI ''Math Verification'' (verifyCall firstPassData) MODEL_FAST None w2 = (vr, w3)"
  shows
    "(\<forall>verifyRes verifyData R.
        vr = Inr verifyRes \<and> cleanAndParseJSON (text' (output' verifyRes)) = Inr verifyData
          \<and> getProp verifyData ''valid'' = JBool False
          \<and> getProp verifyData ''corrected_response'' = JObj R
        \<longrightarrow> solveMathWithCode searchCall solveCall verifyCall useSearch w =
              (Inr (repairedResult (JObj R) (model res) sources), w3)
            \<and> getProp (repairedResult (JObj R) (model res) sources) ''wasAutoRepaired'' = JBool True
            \<and> (\<forall>k. k \<noteq> ''modelUsed'' \<and> k \<noteq> ''sources'' \<and> k \<noteq> ''wasAutoRepaired'' \<longrightarrow>
                  getProp (repairedResult (JObj R) (model res) sources) k = getProp (JObj R) k))
     \<and> ((\<exists>e. vr = Inl e) \<or>
         (\<exists>verifyRes verifyData.
             vr = Inr verifyRes \<and> cleanAndParseJSON (text' (output' verifyRes)) = Inr verifyData
               \<and> getProp verifyData ''valid'' = JBool True)
        \<longrightarrow> solveMathWithCode searchCall solveCall verifyCall useSearch w =
              (Inr (firstPassResult firstPassData (model res) sources), w3)
            \<and> getProp (firstPassResult firstPassData (model res) sources) ''wasAutoRepaired''
                = JBool False
            \<and> (\<forall>F k. firstPassData = JObj F \<and> k \<noteq> ''modelUsed'' \<and> k \<noteq> ''sources''
                        \<and> k \<noteq> ''wasAutoRepaired'' \<longrightarrow>
                  getProp (firstPassResult firstPassData (model res) sources) k
                    = getProp firstPassData k))
     \<and> (\<exists>result.
           solveMathWithCode searchCall solveCall verifyCall useSearch w = (Inr result, w3)
           \<and> (getProp result ''wasAutoRepaired'' = JBool True \<longleftrightarrow>
                (\<exists>verifyRes verifyData.
                    vr = Inr verifyRes
                    \<and> cleanAndParseJSON (text' (output' verifyRes)) = Inr verifyData
                    \<and> getProp verifyData ''valid'' = JBool False
                    \<and> truthy (getProp verifyData ''corrected_response'')
                    \<and> result = repairedResult (getProp verifyData ''corrected_response'')
                                 (model res) sources))
           \<and> (getProp result ''wasAutoRepaired'' \<noteq> JBool True \<longrightarrow>
                getProp result ''wasAutoRepaired'' = JBool False
                \<and> result = firstPassResult firstPassData (model res) sources))"
proof -
  obtain vs where vs: "verifyStage (verifyCall firstPassData) (model res) sources w2 = (vs, w3)"
    using assms(5) by (cases vr) (auto simp: verifyStage_def)
  note run = solveMath_after_first_pass [where solveCall = solveCall and verifyCall = verifyCall
      and contextInfo = contextInfo and firstPassData = firstPassData, OF assms(1-4) vs]
  have repair: "solveMathWithCode searchCall solveCall verifyCall useSearch w =
                  (Inr (repairedResult (getProp verifyData ''corrected_response'') (model res) sources), w3)"
    if "vr = Inr verifyRes" "cleanAndParseJSON (text' (output' verifyRes)) = Inr verifyData"
       "getProp verifyData ''valid'' = JBool False" "truthy (getProp verifyData ''corrected_response'')"
    for verifyRes verifyData
  proof -
    have "\<not> nullish verifyData" using that(3) getProp_nullish by fastforce
    then have "vs = Inr (Some (repairedResult (getProp verifyData ''corrected_response'') (model res) sources))"
      using verifyStage_returns [of "verifyCall firstPassData" w2 verifyRes w3 verifyData "model res" sources]
        assms(5) that vs by simp
    then show ?thesis using run by simp
  qed
  have keep: "solveMathWithCode searchCall solveCall verifyCall useSearch w =
                  (Inr (firstPassResult firstPassData (model res) sources), w3)"
    if "\<not> (\<exists>verifyRes verifyData. vr = Inr verifyRes
            \<and> cleanAndParseJSON (text' (output' verifyRes)) = Inr verifyData
            \<and> getProp verifyData ''valid'' = JBool False
            \<and> truthy (getProp verifyData ''corrected_response''))"
  proof (cases vr)
    case (Inl e)
    then have "vs = Inl e" using verifyStage_throws [of "verifyCall firstPassData" w2 e w3 "model res" sources]
        assms(5) vs by simp
    then show ?thesis using run by simp
  next
    case (Inr verifyRes)
    obtain verifyData where vd: "cleanAndParseJSON (text' (output' verifyRes)) = Inr verifyData"
      using cleanAndParseJSON_returns by blast
    have "vs = Inl TypeError \<or> vs = Inr None"
      using verifyStage_returns [of "verifyCall firstPassData" w2 verifyRes w3 verifyData "model res" sources]
        assms(5) Inr vd vs that by (auto split: if_splits)
    then show ?thesis using run by auto
  qed
  let ?solve = "solveMathWithCode searchCall solveCall verifyCall useSearch w"
  let ?first = "firstPassResult firstPassData (model res) sources"
  let ?replaced = "\<lambda>result. \<exists>verifyRes verifyData.
                    vr = Inr verifyRes
                    \<and> cleanAndParseJSON (text' (output' verifyRes)) = Inr verifyData
                    \<and> getProp verifyData ''valid'' = JBool False
                    \<and> truthy (getProp verifyData ''corrected_response'')
                    \<and> result = repairedResult (getProp verifyData ''corrected_response'')
                                 (model res) sources"
  have A: "?solve = (Inr (repairedResult (JObj R) (model res) sources), w3)
            \<and> getProp (repairedResult (JObj R) (model res) sources) ''wasAutoRepaired'' = JBool True
            \<and> (\<forall>k. k \<noteq> ''modelUsed'' \<and> k \<noteq> ''sources'' \<and> k \<noteq> ''wasAutoRepaired'' \<longrightarrow>
                  getProp (repairedResult (JObj R) (model res) sources) k = getProp (JObj R) k)"
    if "vr = Inr verifyRes \<and> cleanAndParseJSON (text' (output' verifyRes)) = Inr verifyData
          \<and> getProp verifyData ''valid'' = JBool False
          \<and> getProp verifyData ''corrected_response'' = JObj R"
    for verifyRes verifyData R
    using repair [of verifyRes verifyData] that
    by (simp add: repairedResult_flag repairedResult_fields)
  have B: "?solve = (Inr ?first, w3)
            \<and> getProp ?first ''wasAutoRepaired'' = JBool False
            \<and> (\<forall>F k. firstPassData = JObj F \<and> k \<noteq> ''modelUsed'' \<and> k \<noteq> ''sources''
                        \<and> k \<noteq> ''wasAutoRepaired'' \<longrightarrow>
                  getProp ?first k = getProp firstPassData k)"
    if "(\<exists>e. vr = Inl e) \<or>
         (\<exists>verifyRes verifyData.
             vr = Inr verifyRes \<and> cleanAndParseJSON (text' (output' verifyRes)) = Inr verifyData
               \<and> getProp verifyData ''valid'' = JBool True)"
  proof -
    have "\<not> (\<exists>verifyRes verifyData. vr = Inr verifyRes
            \<and> cleanAndParseJSON (text' (output' verifyRes)) = Inr verifyData
            \<and> getProp verifyData ''valid'' = JBool False
            \<and> truthy (getProp verifyData ''corrected_response''))"
      using that by auto
    from keep [OF this] show ?thesis
      by (auto simp: firstPassResult_flag firstPassResult_fields)
  qed
  have C: "\<exists>result. ?solve = (Inr result, w3)
           \<and> (getProp result ''wasAutoRepaired'' = JBool True \<longleftrightarrow> ?replaced result)
           \<and> (getProp result ''wasAutoRepaired'' \<noteq> JBool True \<longrightarrow>
                getProp result ''wasAutoRepaired'' = JBool False \<and> result = ?first)"
  proof (cases "\<exists>verifyRes verifyData. vr = Inr verifyRes
            \<and> cleanAndParseJSON (text' (output' verifyRes)) = Inr verifyData
            \<and> getProp verifyData ''valid'' = JBool False
            \<and> truthy (getProp verifyData ''corrected_response'')")
    case True
    then obtain verifyRes verifyData where h: "vr = Inr verifyRes"
        "cleanAndParseJSON (text' (output' verifyRes)) = Inr verifyData"
        "getProp verifyData ''valid'' = JBool False"
        "truthy (getProp verifyData ''corrected_response'')" by blast
    let ?r = "repairedResult (getProp verifyData ''corrected_response'') (model res) sources"
    have "?solve = (Inr ?r, w3)" by (rule repair [OF h])
    moreover have "getProp ?r ''wasAutoRepaired'' = JBool True" by (rule repairedResult_flag)
    moreover have "?replaced ?r" using h by blast
    ultimately show ?thesis by blast
  next
    case False
    have "?solve = (Inr ?first, w3)" by (rule keep [OF False])
    moreover have "getProp ?first ''wasAutoRepaired'' = JBool False" by (rule firstPassResult_flag)
    moreover have "\<not> ?replaced ?first" using False by blast
    ultimately show ?thesis by auto
  qed
  show ?thesis using A B C by blast
qed

lemma callAI_fetch_failed:
  "callAI operationName (failing (mkError ''fetch failed'')) m None w =
     (Inl (mkError ''fetch failed''), w)"
  by (simp add: callAI_def attemptCall_def failing_def rethrown_def isQuota_def errorMsg_def
      msgIncludes_def bindE_def statusOf_def mkError_def startsWith_def)

lemma callAI_answering:
  "callAI operationName (answering t) m fb w = (Inr \<lparr>output' = textResponse t, model = m\<rparr>, w)"
  by (simp add: callAI_def attemptCall_def answering_def)

theorem solveMathWithCode_resolution_witness:
  "solveMathWithCode (answering []) (\<lambda>contextInfo. answering solveText)
      (\<lambda>firstPassData. answering repairText) False () =
     (Inr (JObj [(''explanation'', JStr ''sum''), (''pythonCode'', JStr ''print(2+2)''),
                 (''result'', JStr ''4''),
                 (''modelUsed'', JStr ''gemini-3-pro-preview + Verified''),
                 (''sources'', JArr []), (''wasAutoRepaired'', JBool True)]), ())
   \<and> solveMathWithCode (answering []) (\<lambda>contextInfo. answering solveText)
      (\<lambda>firstPassData. answering ''{\"valid\": true}'') False () =
     (Inr (JObj [(''explanation'', JStr ''sum''), (''pythonCode'', JStr ''print(1+1)''),
                 (''result'', JStr ''2''),
                 (''modelUsed'', JStr ''gemini-3-pro-preview''),
                 (''sources'', JArr []), (''wasAutoRepaired'', JBool False)]), ())
   \<and> solveMathWithCode (answering []) (\<lambda>contextInfo. answering solveText)
      (\<lambda>firstPassData. failing (mkError ''fetch failed'')) False () =
     (Inr (JObj [(''explanation'', JStr ''sum''), (''pythonCode'', JStr ''print(1+1)''),
                 (''result'', JStr ''2''),
                 (''modelUsed'', JStr ''gemini-3-pro-preview''),
                 (''sources'', JArr []), (''wasAutoRepaired'', JBool False)]), ())"
proof -
  let ?fp = "JObj [(''explanation'', JStr ''sum''), (''pythonCode'', JStr ''print(1+1)''),
                   (''result'', JStr ''2'')]"
  let ?R = "[(''explanation'', JStr ''sum''), (''pythonCode'', JStr ''print(2+2)''),
             (''result'', JStr ''4'')]"
  let ?res = "\<lparr>output' = textResponse solveText, model = MODEL_SMART\<rparr>"
  have search: "mathSearch (answering []) False () = (Inr ([], []), ())"
    by (simp add: mathSearch_def)
  have solve: "callAI ''Math Lab'' ((\<lambda>contextInfo. answering solveText) [])
                 MODEL_SMART (Some MODEL_FAST) () = (Inr ?res, ())"
    by (simp add: callAI_answering)
  have first: "cleanAndParseJSON (text' (output' ?res)) = Inr ?fp"
    unfolding solveText_def textResponse_def by code_simp
  have nn: "\<not> nullish ?fp" by (simp add: nullish_def)
  have pr: "cleanAndParseJSON (Some repairText)
              = Inr (JObj [(''valid'', JBool False), (''corrected_response'', JObj ?R)])"
    unfolding repairText_def by code_simp
  have pv: "cleanAndParseJSON (Some ''{\"valid\": true}'') = Inr (JObj [(''valid'', JBool True)])"
    by code_simp
  have v1: "callAI ''Math Verification'' ((\<lambda>firstPassData. answering repairText) ?fp)
              MODEL_FAST None () = (Inr \<lparr>output' = textResponse repairText, model = MODEL_FAST\<rparr>, ())"
    by (simp add: callAI_answering)
  have v2: "callAI ''Math Verification'' ((\<lambda>firstPassData. answering ''{\"valid\": true}'') ?fp)
              MODEL_FAST None () = (Inr \<lparr>output' = textResponse ''{\"valid\": true}'', model = MODEL_FAST\<rparr>, ())"
    by (simp add: callAI_answering)
  have v3: "callAI ''Math Verification'' ((\<lambda>firstPassData. failing (mkError ''fetch failed'')) ?fp)
              MODEL_FAST None () = (Inl (mkError ''fetch failed''), ())"
    by (simp add: callAI_fetch_failed)
  note t1 = solveMathWithCode_resolution [where solveCall = "\<lambda>contextInfo. answering solveText"
      and verifyCall = "\<lambda>firstPassData. answering repairText" and contextInfo = "[]"
      and firstPassData = ?fp, OF search solve first nn v1]
  note t2 = solveMathWithCode_resolution [where solveCall = "\<lambda>contextInfo. answering solveText"
      and verifyCall = "\<lambda>firstPassData. answering ''{\"valid\": true}''" and contextInfo = "[]"
      and firstPassData = ?fp, OF search solve first nn v2]
  note t3 = solveMathWithCode_resolution [where solveCall = "\<lambda>contextInfo. answering solveText"
      and verifyCall = "\<lambda>firstPassData. failing (mkError ''fetch failed'')" and contextInfo = "[]"
      and firstPassData = ?fp, OF search solve first nn v3]
  have r1: "solveMathWithCode (answering []) (\<lambda>contextInfo. answering solveText)
      (\<lambda>firstPassData. answering repairText) False () =
      (Inr (repairedResult (JObj ?R) MODEL_SMART []), ())"
    using t1 pr by (simp add: textResponse_def)
  have r2: "solveMathWithCode (answering []) (\<lambda>contextInfo. answering solveText)
      (\<lambda>firstPassData. answering ''{\"valid\": true}'') False () =
      (Inr (firstPassResult ?fp MODEL_SMART []), ())"
    using t2 pv by (simp add: textResponse_def)
  have r3: "solveMathWithCode (answering []) (\<lambda>contextInfo. answering solveText)
      (\<lambda>firstPassData. failing (mkError ''fetch failed'')) False () =
      (Inr (firstPassResult ?fp MODEL_SMART []), ())"
    using t3 by simp
  show ?thesis
    unfolding r1 r2 r3
    by (simp add: repairedResult_def firstPassResult_def MODEL_SMART_def)
qed

section \<open>Homework merge: properties\<close>


















text \<open>
  What the response reports for a record that the merge has put in the array. Line 291
  reads \<open>validation_check\<close> first. A corrected record shaped by the analysis schema has
  one, so the response carries the status and the score of that check, and the
  \<open>validation\<close> that the merge has set is not read, although the comment of line 291
  names the refined structure.
\<close>

lemma toProblemAnalysis_validation_check:
  assumes "truthy (getProp p ''validation_check'')"
    and "toProblemAnalysis contextData index p = Inr analysis"
  shows "getProp analysis ''validation'' =
           JObj [(''status'', getProp (getProp p ''validation_check'') ''status''),
                 (''confidenceScore'', getProp (getProp p ''validation_check'') ''confidence_score''),
                 (''renderingNote'', getProp (getProp p ''validation_check'') ''rendering_note'')]"
  using assms
  by (auto simp: toProblemAnalysis_def bindE_def Let_def split: sum.splits)

lemma toProblemAnalysis_merged:
  "toProblemAnalysis sampleContext 1
     (selfCorrected (problemRecord ''2+2'' (JStr ''5'') ''verified'' 97))
   = Inr (sampleAnalysis 2 ''2+2'' ''5'' 97)
   \<and> getProp (sampleAnalysis 2 ''2+2'' ''5'' 97) ''validation'' =
       JObj [(''status'', JStr ''verified''), (''confidenceScore'', JNum 97),
             (''renderingNote'', JUndefined)]"
  by (simp add: toProblemAnalysis_def selfCorrected_def problemRecord_def sampleContext_def
      sampleAnalysis_def member_def nullish_def bindE_def)

lemma filterE_defined:
  "filterE P xs = Inr r \<Longrightarrow> \<forall>x\<in>set xs. \<exists>b. P x = Inr b"
  by (induction xs arbitrary: r) (auto simp: bindE_def split: sum.splits)

lemma needsRefine_not_nullish:
  "needsRefine toNumber p = Inr b \<Longrightarrow> \<not> nullish p"
  by (auto simp: needsRefine_def member_def bindE_def split: if_splits)

lemma selected_not_nullish:
  assumes "filterE (needsRefine toNumber) problems = Inr sel"
  shows "\<forall>p\<in>set problems. \<not> nullish p"
  using filterE_defined [OF assms] needsRefine_not_nullish by blast

lemma mapIndexed_returns:
  "\<forall>x\<in>set xs. \<exists>y. f i x = Inr y \<Longrightarrow> (\<And>i x. (\<exists>y. f i x = Inr y) \<or> (\<forall>j. \<exists>e. f j x = Inl e))
   \<Longrightarrow> \<exists>ys. mapIndexed f i xs = Inr ys"
proof (induction xs arbitrary: i)
  case Nil
  then show ?case by simp
next
  case (Cons x xs)
  from Cons.prems(1) obtain y where y: "f i x = Inr y" by auto
  have "\<forall>x\<in>set xs. \<exists>y. f (Suc i) x = Inr y"
  proof
    fix z assume "z \<in> set xs"
    then obtain y' where "f i z = Inr y'" using Cons.prems(1) by auto
    then show "\<exists>y. f (Suc i) z = Inr y" using Cons.prems(2) [of "Suc i" z] by (metis sum.distinct(1))
  qed
  from Cons.IH [OF this Cons.prems(2)] obtain ys where "mapIndexed f (Suc i) xs = Inr ys" by blast
  then show ?case using y by (simp add: bindE_def)
qed

lemma homeworkResponse_returns:
  assumes "\<forall>p\<in>set problems. \<not> nullish p"
  shows "\<exists>response. homeworkResponse contextData m problems = Inr response"
proof -
  have "\<exists>ys. mapIndexed (toProblemAnalysis contextData) 0 problems = Inr ys"
  proof (rule mapIndexed_returns)
    show "\<forall>x\<in>set problems. \<exists>y. toProblemAnalysis contextData 0 x = Inr y"
      using assms by (simp add: toProblemAnalysis_def member_def bindE_def)
    show "(\<exists>y. toProblemAnalysis contextData i x = Inr y)
            \<or> (\<forall>j. \<exists>e. toProblemAnalysis contextData j x = Inl e)" for i x
      by (cases "nullish x") (simp_all add: toProblemAnalysis_def member_def bindE_def)
  qed
  then show ?thesis by (auto simp: homeworkResponse_def bindE_def)
qed

lemma refineProblems_kept:
  assumes "problemsToRefine \<noteq> []"
    and "callAI ''Analysis Refinement'' (refineCall problemsToRefine) MODEL_SMART None w2 = (rr, w3)"
    and "(\<exists>e. rr = Inl e) \<or>
         (\<exists>refineRes refinedData. rr = Inr refineRes
            \<and> cleanAndParseJSON (text' (output' refineRes)) = Inr refinedData
            \<and> (\<forall>fixed. getProp refinedData ''problems'' = JArr fixed \<longrightarrow> fixed = []))"
  shows "refineProblems refineCall problemsToRefine problems w2 = (problems, w3)"
  using assms(3)
proof (elim disjE exE conjE)
  fix e assume "rr = Inl e"
  then show ?thesis using assms(1,2) by (simp add: refineProblems_def)
next
  fix refineRes refinedData
  assume h: "rr = Inr refineRes" "cleanAndParseJSON (text' (output' refineRes)) = Inr refinedData"
    "\<forall>fixed. getProp refinedData ''problems'' = JArr fixed \<longrightarrow> fixed = []"
  show ?thesis
  proof (cases "nullish refinedData")
    case True
    then show ?thesis using assms(1,2) h by (simp add: refineProblems_def bindE_def member_def)
  next
    case False
    then show ?thesis using assms(1,2) h
      by (cases "getProp refinedData ''problems''")
        (simp_all add: refineProblems_def bindE_def member_def)
  qed
qed

text \<open>
  C5. When the refinement stage runs and its call throws, or its text does not parse
  to data whose \<open>problems\<close> is a non-empty array, the array of problems is left as the
  analysis gave it, and \<open>analyzeHomework\<close> returns the response built from it.
\<close>

theorem refinement_failure_keeps_original:
  assumes "callAI ''Auto-Tuning'' tuningCall MODEL_FAST None w = (Inr tuningRes, w1)"
    and "cleanAndParseJSON (text' (output' tuningRes)) = Inr tuningData"
    and "tuningContext tuningData = Inr contextData"
    and "callAI ''Deep Execution'' (analysisCall contextData) MODEL_SMART (Some MODEL_FAST) w1
           = (Inr analysisRes, w2)"
    and "cleanAndParseJSON (text' (output' analysisRes)) = Inr rawResponse"
    and "ensureProblems rawResponse = Inr problems"
    and "filterE (needsRefine toNumber) problems = Inr problemsToRefine"
    and "problemsToRefine \<noteq> []"
    and "callAI ''Analysis Refinement'' (refineCall problemsToRefine) MODEL_SMART None w2 = (rr, w3)"
    and "(\<exists>e. rr = Inl e) \<or>
         (\<exists>refineRes refinedData. rr = Inr refineRes
            \<and> cleanAndParseJSON (text' (output' refineRes)) = Inr refinedData
            \<and> (\<forall>fixed. getProp refinedData ''problems'' = JArr fixed \<longrightarrow> fixed = []))"
  shows "refineProblems refineCall problemsToRefine problems w2 = (problems, w3)
       \<and> (\<exists>response.
             analyzeHomework toNumber tuningCall analysisCall refineCall w = (Inr response, w3)
             \<and> homeworkResponse contextData (model analysisRes) problems = Inr response)"
proof -
  have kept: "refineProblems refineCall problemsToRefine problems w2 = (problems, w3)"
    by (rule refineProblems_kept [where refineCall = refineCall, OF assms(8,9,10)])
  obtain response where r: "homeworkResponse contextData (model analysisRes) problems = Inr response"
    using homeworkResponse_returns [OF selected_not_nullish [OF assms(7)]] by blast
  have "analyzeHomework toNumber tuningCall analysisCall refineCall w
          = (homeworkResponse contextData (model analysisRes) problems, w3)"
    using assms(1-7) kept by (simp add: analyzeHomework_def bindE_def)
  then show ?thesis using kept r by simp
qed

theorem refinement_failure_keeps_original_witness:
  "refineProblems (\<lambda>selected. failing (mkError ''fetch failed''))
      [problemRecord ''2+2'' (JStr ''5'') ''verified'' 60] sampleProblems () = (sampleProblems, ())
   \<and> analyzeHomework (\<lambda>v. None) (answering tuningText) (\<lambda>contextData. answering analysisText)
        (\<lambda>selected. failing (mkError ''fetch failed'')) () =
      (Inr (JObj [(''hasStudentSolution'', JBool True),
                  (''modelUsed'', JStr ''gemini-3-pro-preview''),
                  (''problems'',
                     JArr [sampleAnalysis 1 ''1+1'' ''2'' 95,
                           sampleAnalysis 2 ''2+2'' ''5'' 60,
                           sampleAnalysis 3 ''3+3'' ''6'' 90])]), ())"
proof -
  let ?sel = "[problemRecord ''2+2'' (JStr ''5'') ''verified'' 60]"
  let ?refine = "\<lambda>selected::jsval list. (failing (mkError ''fetch failed'') :: (response, unit) api)"
  have a1: "callAI ''Auto-Tuning'' (answering tuningText) MODEL_FAST None ()
              = (Inr \<lparr>output' = textResponse tuningText, model = MODEL_FAST\<rparr>, ())"
    by (rule callAI_answering)
  have a2: "cleanAndParseJSON (text' (output' \<lparr>output' = textResponse tuningText, model = MODEL_FAST\<rparr>))
              = Inr sampleContext"
    unfolding tuningText_def sampleContext_def textResponse_def by code_simp
  have a3: "tuningContext sampleContext = Inr sampleContext"
    by (simp add: tuningContext_def sampleContext_def nullish_def)
  have a4: "callAI ''Deep Execution'' ((\<lambda>contextData. answering analysisText) sampleContext)
              MODEL_SMART (Some MODEL_FAST) ()
              = (Inr \<lparr>output' = textResponse analysisText, model = MODEL_SMART\<rparr>, ())"
    by (simp add: callAI_answering)
  have a5: "cleanAndParseJSON (text' (output' \<lparr>output' = textResponse analysisText, model = MODEL_SMART\<rparr>))
              = Inr (JObj [(''problems'', JArr sampleProblems)])"
    unfolding analysisText_def sampleProblems_def problemRecord_def textResponse_def by code_simp
  have a6: "ensureProblems (JObj [(''problems'', JArr sampleProblems)]) = Inr sampleProblems"
    by (simp add: ensureProblems_def member_def nullish_def bindE_def)
  have a7: "filterE (needsRefine (\<lambda>v. None)) sampleProblems = Inr ?sel"
    unfolding sampleProblems_def problemRecord_def by code_simp
  have a8: "?sel \<noteq> []" by simp
  have a9: "callAI ''Analysis Refinement'' (?refine ?sel) MODEL_SMART None ()
              = (Inl (mkError ''fetch failed''), ())"
    by (simp add: callAI_fetch_failed)
  have a10: "(\<exists>e. (Inl (mkError ''fetch failed'') :: js_error + response tiered) = Inl e) \<or>
         (\<exists>refineRes refinedData. Inl (mkError ''fetch failed'') = Inr refineRes
            \<and> cleanAndParseJSON (text' (output' refineRes)) = Inr refinedData
            \<and> (\<forall>fixed. getProp refinedData ''problems'' = JArr fixed \<longrightarrow> fixed = []))"
    by simp
  have r: "homeworkResponse sampleContext MODEL_SMART sampleProblems =
        Inr (JObj [(''hasStudentSolution'', JBool True),
                  (''modelUsed'', JStr ''gemini-3-pro-preview''),
                  (''problems'',
                     JArr [sampleAnalysis 1 ''1+1'' ''2'' 95,
                           sampleAnalysis 2 ''2+2'' ''5'' 60,
                           sampleAnalysis 3 ''3+3'' ''6'' 90])])"
    unfolding sampleContext_def sampleProblems_def problemRecord_def sampleAnalysis_def
      MODEL_SMART_def by code_simp
  from refinement_failure_keeps_original
    [where toNumber = "\<lambda>v. None" and analysisCall = "\<lambda>contextData. answering analysisText"
       and refineCall = ?refine and contextData = sampleContext,
     OF a1 a2 a3 a4 a5 a6 a7 a8 a9 a10]
  show ?thesis using r by auto
qed

section \<open>Session registry: properties\<close>

lemma callAI_no_fallback:
  "callAI operationName apiCall m None w =
     (case apiCall m w of
        (Inr result, w') \<Rightarrow> (Inr \<lparr>output' = result, model = m\<rparr>, w')
      | (Inl e, w') \<Rightarrow> (Inl (propagated e), w'))"
  by (simp add: callAI_def attemptCall_def propagated_def
      split: prod.splits sum.splits js_error.splits)

lemma initializeChat_run:
  assumes "getAI (provider w) = None"
    and "create MODEL_FAST ''Helpful AI Tutor. Use Google Search for facts.'' (provider w)
           = (Inr session, p1)"
    and "sendMessage session (chatFirstMessage ty dat textContext) p1 = (r, p2)"
  shows "initializeChat getAI create sendMessage ty dat textContext w =
           ((case r of Inr result \<Rightarrow> Inr \<lparr>output' = result, model = MODEL_FAST\<rparr>
                     | Inl e \<Rightarrow> Inl (propagated e)),
            w\<lparr>chatSession := Some session, chatModelUsed := MODEL_FAST, provider := p2\<rparr>)"
  using assms
  by (cases r) (simp_all add: initializeChat_def callAI_no_fallback initChatCall_def)

lemma startExamSession_run:
  assumes "getAI (provider w) = None"
    and "create MODEL_FAST systemPrompt (provider w) = (Inr session, p1)"
    and "sendMessage session (examFirstMessage strictMode fileData) p1 = (r, p2)"
  shows "startExamSession getAI create sendMessage systemPrompt strictMode fileData w =
           ((case r of
               Inr result \<Rightarrow>
                 Inr (JObj [(''text'', JStr (case text' result of
                                              Some t \<Rightarrow> if t \<noteq> [] then t else ''Ready.''
                                            | None \<Rightarrow> ''Ready.'')),
                            (''modelUsed'', JStr MODEL_FAST)])
             | Inl e \<Rightarrow> Inl (propagated e)),
            w\<lparr>examSession := Some session, examModelUsed := MODEL_FAST, provider := p2\<rparr>)"
  using assms
  by (cases r) (simp_all add: startExamSession_def callAI_no_fallback startExamCall_def)

lemma initializeChat_cases:
  obtains (client) e where "initializeChat getAI create sendMessage ty dat textContext w = (Inl e, w)"
  | (create) e p1 where
      "initializeChat getAI create sendMessage ty dat textContext w = (Inl e, w\<lparr>provider := p1\<rparr>)"
  | (sent) session p1 r p2 where "getAI (provider w) = None"
      "create MODEL_FAST ''Helpful AI Tutor. Use Google Search for facts.'' (provider w)
         = (Inr session, p1)"
      "sendMessage session (chatFirstMessage ty dat textContext) p1 = (r, p2)"
proof (cases "getAI (provider w)")
  case (Some e)
  then show ?thesis using client by (simp add: initializeChat_def)
next
  case None
  obtain c p1 where c: "create MODEL_FAST ''Helpful AI Tutor. Use Google Search for facts.''
      (provider w) = (c, p1)" by fastforce
  show ?thesis
  proof (cases c)
    case (Inl e)
    then show ?thesis using create None c
      by (simp add: initializeChat_def callAI_no_fallback initChatCall_def)
  next
    case (Inr session)
    obtain r p2 where "sendMessage session (chatFirstMessage ty dat textContext) p1 = (r, p2)"
      by fastforce
    then show ?thesis using sent None c Inr by simp
  qed
qed

lemma startExamSession_cases:
  obtains (client) e where
      "startExamSession getAI create sendMessage systemPrompt strictMode fileData w = (Inl e, w)"
  | (create) e p1 where
      "startExamSession getAI create sendMessage systemPrompt strictMode fileData w
         = (Inl e, w\<lparr>provider := p1\<rparr>)"
  | (sent) session p1 r p2 where "getAI (provider w) = None"
      "create MODEL_FAST systemPrompt (provider w) = (Inr session, p1)"
      "sendMessage session (examFirstMessage strictMode fileData) p1 = (r, p2)"
proof (cases "getAI (provider w)")
  case (Some e)
  then show ?thesis using client by (simp add: startExamSession_def)
next
  case None
  obtain c p1 where c: "create MODEL_FAST systemPrompt (provider w) = (c, p1)" by fastforce
  show ?thesis
  proof (cases c)
    case (Inl e)
    then show ?thesis using create None c
      by (simp add: startExamSession_def callAI_no_fallback startExamCall_def)
  next
    case (Inr session)
    obtain r p2 where "sendMessage session (examFirstMessage strictMode fileData) p1 = (r, p2)"
      by fastforce
    then show ?thesis using sent None c Inr by simp
  qed
qed

lemma sendChatMessage_forward:
  "chatSession w = Some session \<Longrightarrow>
   sendChatMessage sendMessage msg w =
     (map_sum id (\<lambda>result. chatReply result (chatModelUsed w))
        (fst (sendMessage session (Plain msg) (provider w))),
      w\<lparr>provider := snd (sendMessage session (Plain msg) (provider w))\<rparr>)"
  by (simp add: sendChatMessage_def split: prod.splits sum.splits)

lemma sendExamMessage_forward:
  "examSession w = Some session \<Longrightarrow>
   sendExamMessage sendMessage msg w =
     (map_sum id (\<lambda>result. examReply result (examModelUsed w))
        (fst (sendMessage session (Plain msg) (provider w))),
      w\<lparr>provider := snd (sendMessage session (Plain msg) (provider w))\<rparr>)"
  by (simp add: sendExamMessage_def split: prod.splits sum.splits)

lemma sendChatMessage_uninitialized:
  "chatSession w = None \<Longrightarrow>
   sendChatMessage sendMessage msg w = (Inl (mkError ''Chat not initialized''), w)"
  by (simp add: sendChatMessage_def)

lemma sendExamMessage_uninitialized:
  "examSession w = None \<Longrightarrow>
   sendExamMessage sendMessage msg w = (Inl (mkError ''Exam not started''), w)"
  by (simp add: sendExamMessage_def)

lemma same_world: "\<exists>p'. w = w\<lparr>provider := p'\<rparr>"
  by (rule exI [of _ "provider w"]) simp

lemma perform_touched: "touched w (perform getAI create sendMessage w a) a"
proof (cases a)
  case (InitChat ty dat textContext)
  show ?thesis
  proof (cases rule: initializeChat_cases [of getAI create sendMessage ty dat textContext w])
    case (client e)
    then show ?thesis using InitChat same_world [of w] by (simp add: touched_def)
  next
    case (create e p1)
    then show ?thesis using InitChat by (auto simp: touched_def)
  next
    case (sent session p1 r p2)
    from initializeChat_run [where getAI = getAI and create = create and sendMessage = sendMessage,
        OF sent] show ?thesis using InitChat by (auto simp: touched_def)
  qed
next
  case (SendChat msg)
  show ?thesis
  proof (cases "chatSession w")
    case None
    then show ?thesis using SendChat same_world [of w]
      by (simp add: touched_def sendChatMessage_uninitialized)
  next
    case (Some session)
    then show ?thesis using SendChat by (auto simp: touched_def sendChatMessage_forward)
  qed
next
  case (StartExam systemPrompt strictMode fileData)
  show ?thesis
  proof (cases rule: startExamSession_cases
      [of getAI create sendMessage systemPrompt strictMode fileData w])
    case (client e)
    then show ?thesis using StartExam same_world [of w] by (simp add: touched_def)
  next
    case (create e p1)
    then show ?thesis using StartExam by (auto simp: touched_def)
  next
    case (sent session p1 r p2)
    from startExamSession_run [where getAI = getAI and create = create
        and sendMessage = sendMessage, OF sent] show ?thesis using StartExam by (auto simp: touched_def)
  qed
next
  case (SendExam msg)
  show ?thesis
  proof (cases "examSession w")
    case None
    then show ?thesis using SendExam same_world [of w]
      by (simp add: touched_def sendExamMessage_uninitialized)
  next
    case (Some session)
    then show ?thesis using SendExam by (auto simp: touched_def sendExamMessage_forward)
  qed
qed

lemma touched_fields:
  assumes "touched w w' a"
  shows "chatSession w \<noteq> None \<Longrightarrow> chatSession w' \<noteq> None"
    and "examSession w \<noteq> None \<Longrightarrow> examSession w' \<noteq> None"
    and "chatModelUsed w = MODEL_FAST \<Longrightarrow> chatModelUsed w' = MODEL_FAST"
    and "examModelUsed w = MODEL_FAST \<Longrightarrow> examModelUsed w' = MODEL_FAST"
    and "\<not> startsChat a \<Longrightarrow> chatSession w' = chatSession w"
    and "\<not> startsExam a \<Longrightarrow> examSession w' = examSession w"
  using assms by (auto simp: touched_def)

lemma run_snoc:
  "run getAI create sendMessage (acts @ [a]) w =
     perform getAI create sendMessage (run getAI create sendMessage acts w) a"
  by (simp add: run_def)

lemma run_keeps:
  "(chatSession w \<noteq> None \<longrightarrow> chatSession (run getAI create sendMessage acts w) \<noteq> None)
   \<and> (examSession w \<noteq> None \<longrightarrow> examSession (run getAI create sendMessage acts w) \<noteq> None)
   \<and> (chatModelUsed w = MODEL_FAST \<longrightarrow>
        chatModelUsed (run getAI create sendMessage acts w) = MODEL_FAST)
   \<and> (examModelUsed w = MODEL_FAST \<longrightarrow>
        examModelUsed (run getAI create sendMessage acts w) = MODEL_FAST)
   \<and> ((\<forall>a\<in>set acts. \<not> startsChat a) \<longrightarrow>
        chatSession (run getAI create sendMessage acts w) = chatSession w)
   \<and> ((\<forall>a\<in>set acts. \<not> startsExam a) \<longrightarrow>
        examSession (run getAI create sendMessage acts w) = examSession w)"
proof (induction acts rule: rev_induct)
  case Nil
  then show ?case by (simp add: run_def)
next
  case (snoc a acts)
  note t = touched_fields [OF perform_touched
      [of "run getAI create sendMessage acts w" getAI create sendMessage a]]
  show ?case unfolding run_snoc using snoc t by auto
qed

lemma reply_modelUsed:
  "getProp (chatReply result m) ''modelUsed'' = JStr m"
  "getProp (examReply result m) ''modelUsed'' = JStr m"
  by (simp_all add: chatReply_def examReply_def)

lemma initializeChat_success:
  assumes "initializeChat getAI create sendMessage ty dat textContext w0 = (Inr r, w)"
  shows "model r = MODEL_FAST \<and> chatSession w \<noteq> None \<and> chatModelUsed w = MODEL_FAST"
proof (cases rule: initializeChat_cases [of getAI create sendMessage ty dat textContext w0])
  case (client e)
  then show ?thesis using assms by simp
next
  case (create e p1)
  then show ?thesis using assms by simp
next
  case (sent session p1 res p2)
  from initializeChat_run [where getAI = getAI and create = create and sendMessage = sendMessage,
        OF sent] assms show ?thesis by (cases res) auto
qed

lemma startExamSession_success:
  assumes "startExamSession getAI create sendMessage systemPrompt strictMode fileData w0
             = (Inr reply, w)"
  shows "getProp reply ''modelUsed'' = JStr MODEL_FAST \<and> examSession w \<noteq> None
           \<and> examModelUsed w = MODEL_FAST"
proof (cases rule: startExamSession_cases
    [of getAI create sendMessage systemPrompt strictMode fileData w0])
  case (client e)
  then show ?thesis using assms by simp
next
  case (create e p1)
  then show ?thesis using assms by simp
next
  case (sent session p1 res p2)
  from startExamSession_run [where getAI = getAI and create = create
        and sendMessage = sendMessage, OF sent] assms show ?thesis by (cases res) auto
qed

text \<open>
  C9. After a history of calls from the initial state that holds no start call on a slot,
  a send on that slot fails with the not-initialized error of the slot. After a start on
  a slot that succeeded, and whatever calls came later, the slot holds a session and every
  send on the slot is passed to it: when the session's \<open>sendMessage\<close> returns, the send
  returns its text and reports the model recorded at start, the one the start itself
  reported; when it throws, the send fails with that error.
\<close>

theorem registry_send:
  "((\<forall>a\<in>set acts. \<not> startsChat a) \<longrightarrow>
      sendChatMessage sendMessage msg (run getAI create sendMessage acts (initialWorld p)) =
        (Inl (mkError ''Chat not initialized''), run getAI create sendMessage acts (initialWorld p)))
   \<and> ((\<forall>a\<in>set acts. \<not> startsExam a) \<longrightarrow>
      sendExamMessage sendMessage msg (run getAI create sendMessage acts (initialWorld p)) =
        (Inl (mkError ''Exam not started''), run getAI create sendMessage acts (initialWorld p)))
   \<and> (initializeChat getAI create sendMessage ty dat textContext w0 = (Inr r, w) \<longrightarrow>
        model r = MODEL_FAST
        \<and> (\<exists>session. chatSession (run getAI create sendMessage later w) = Some session
             \<and> (\<forall>result p'.
                   sendMessage session (Plain msg)
                     (provider (run getAI create sendMessage later w)) = (Inr result, p')
                   \<longrightarrow> sendChatMessage sendMessage msg (run getAI create sendMessage later w) =
                         (Inr (chatReply result (model r)),
                          (run getAI create sendMessage later w)\<lparr>provider := p'\<rparr>)
                       \<and> getProp (chatReply result (model r)) ''modelUsed'' = JStr (model r))
             \<and> (\<forall>e p'.
                   sendMessage session (Plain msg)
                     (provider (run getAI create sendMessage later w)) = (Inl e, p')
                   \<longrightarrow> sendChatMessage sendMessage msg (run getAI create sendMessage later w) =
                         (Inl e, (run getAI create sendMessage later w)\<lparr>provider := p'\<rparr>))))
   \<and> (startExamSession getAI create sendMessage systemPrompt strictMode fileData w0
         = (Inr reply, w) \<longrightarrow>
        getProp reply ''modelUsed'' = JStr MODEL_FAST
        \<and> (\<exists>session. examSession (run getAI create sendMessage later w) = Some session
             \<and> (\<forall>result p'.
                   sendMessage session (Plain msg)
                     (provider (run getAI create sendMessage later w)) = (Inr result, p')
                   \<longrightarrow> sendExamMessage sendMessage msg (run getAI create sendMessage later w) =
                         (Inr (examReply result MODEL_FAST),
                          (run getAI create sendMessage later w)\<lparr>provider := p'\<rparr>)
                       \<and> getProp (examReply result MODEL_FAST) ''modelUsed''
                           = getProp reply ''modelUsed'')
             \<and> (\<forall>e p'.
                   sendMessage session (Plain msg)
                     (provider (run getAI create sendMessage later w)) = (Inl e, p')
                   \<longrightarrow> sendExamMessage sendMessage msg (run getAI create sendMessage later w) =
                         (Inl e, (run getAI create sendMessage later w)\<lparr>provider := p'\<rparr>))))"
proof -
  let ?u = "run getAI create sendMessage acts (initialWorld p)"
  let ?w = "run getAI create sendMessage later w"
  note k0 = run_keeps [of "initialWorld p" getAI create sendMessage acts]
  have c1: "(\<forall>a\<in>set acts. \<not> startsChat a) \<longrightarrow>
      sendChatMessage sendMessage msg ?u = (Inl (mkError ''Chat not initialized''), ?u)"
  proof
    assume "\<forall>a\<in>set acts. \<not> startsChat a"
    then have "chatSession ?u = None" using k0 by (simp add: initialWorld_def)
    then show "sendChatMessage sendMessage msg ?u = (Inl (mkError ''Chat not initialized''), ?u)"
      by (rule sendChatMessage_uninitialized)
  qed
  have c2: "(\<forall>a\<in>set acts. \<not> startsExam a) \<longrightarrow>
      sendExamMessage sendMessage msg ?u = (Inl (mkError ''Exam not started''), ?u)"
  proof
    assume "\<forall>a\<in>set acts. \<not> startsExam a"
    then have "examSession ?u = None" using k0 by (simp add: initialWorld_def)
    then show "sendExamMessage sendMessage msg ?u = (Inl (mkError ''Exam not started''), ?u)"
      by (rule sendExamMessage_uninitialized)
  qed
  note k = run_keeps [of w getAI create sendMessage later]
  have c3: "initializeChat getAI create sendMessage ty dat textContext w0 = (Inr r, w) \<longrightarrow>
        model r = MODEL_FAST
        \<and> (\<exists>session. chatSession ?w = Some session
             \<and> (\<forall>result p'.
                   sendMessage session (Plain msg) (provider ?w) = (Inr result, p')
                   \<longrightarrow> sendChatMessage sendMessage msg ?w =
                         (Inr (chatReply result (model r)), ?w\<lparr>provider := p'\<rparr>)
                       \<and> getProp (chatReply result (model r)) ''modelUsed'' = JStr (model r))
             \<and> (\<forall>e p'.
                   sendMessage session (Plain msg) (provider ?w) = (Inl e, p')
                   \<longrightarrow> sendChatMessage sendMessage msg ?w = (Inl e, ?w\<lparr>provider := p'\<rparr>)))"
  proof
    assume "initializeChat getAI create sendMessage ty dat textContext w0 = (Inr r, w)"
    from initializeChat_success [OF this]
    have m: "model r = MODEL_FAST" and "chatSession w \<noteq> None" "chatModelUsed w = MODEL_FAST"
      by simp_all
    then obtain session where s: "chatSession ?w = Some session"
      and mu: "chatModelUsed ?w = MODEL_FAST" using k by auto
    note f = sendChatMessage_forward [OF s, of sendMessage msg]
    show "model r = MODEL_FAST
        \<and> (\<exists>session. chatSession ?w = Some session
             \<and> (\<forall>result p'.
                   sendMessage session (Plain msg) (provider ?w) = (Inr result, p')
                   \<longrightarrow> sendChatMessage sendMessage msg ?w =
                         (Inr (chatReply result (model r)), ?w\<lparr>provider := p'\<rparr>)
                       \<and> getProp (chatReply result (model r)) ''modelUsed'' = JStr (model r))
             \<and> (\<forall>e p'.
                   sendMessage session (Plain msg) (provider ?w) = (Inl e, p')
                   \<longrightarrow> sendChatMessage sendMessage msg ?w = (Inl e, ?w\<lparr>provider := p'\<rparr>)))"
      using m s mu f by (auto simp: reply_modelUsed)
  qed
  have c4: "startExamSession getAI create sendMessage systemPrompt strictMode fileData w0
         = (Inr reply, w) \<longrightarrow>
        getProp reply ''modelUsed'' = JStr MODEL_FAST
        \<and> (\<exists>session. examSession ?w = Some session
             \<and> (\<forall>result p'.
                   sendMessage session (Plain msg) (provider ?w) = (Inr result, p')
                   \<longrightarrow> sendExamMessage sendMessage msg ?w =
                         (Inr (examReply result MODEL_FAST), ?w\<lparr>provider := p'\<rparr>)
                       \<and> getProp (examReply result MODEL_FAST) ''modelUsed''
                           = getProp reply ''modelUsed'')
             \<and> (\<forall>e p'.
                   sendMessage session (Plain msg) (provider ?w) = (Inl e, p')
                   \<longrightarrow> sendExamMessage sendMessage msg ?w = (Inl e, ?w\<lparr>provider := p'\<rparr>)))"
  proof
    assume "startExamSession getAI create sendMessage systemPrompt strictMode fileData w0
         = (Inr reply, w)"
    from startExamSession_success [OF this]
    have m: "getProp reply ''modelUsed'' = JStr MODEL_FAST" and "examSession w \<noteq> None"
      "examModelUsed w = MODEL_FAST" by simp_all
    then obtain session where s: "examSession ?w = Some session"
      and mu: "examModelUsed ?w = MODEL_FAST" using k by auto
    note f = sendExamMessage_forward [OF s, of sendMessage msg]
    show "getProp reply ''modelUsed'' = JStr MODEL_FAST
        \<and> (\<exists>session. examSession ?w = Some session
             \<and> (\<forall>result p'.
                   sendMessage session (Plain msg) (provider ?w) = (Inr result, p')
                   \<longrightarrow> sendExamMessage sendMessage msg ?w =
                         (Inr (examReply result MODEL_FAST), ?w\<lparr>provider := p'\<rparr>)
                       \<and> getProp (examReply result MODEL_FAST) ''modelUsed''
                           = getProp reply ''modelUsed'')
             \<and> (\<forall>e p'.
                   sendMessage session (Plain msg) (provider ?w) = (Inl e, p')
                   \<longrightarrow> sendExamMessage sendMessage msg ?w = (Inl e, ?w\<lparr>provider := p'\<rparr>)))"
      using m s mu f by (auto simp: reply_modelUsed)
  qed
  show ?thesis by (intro conjI) (rule c1 c2 c3 c4)+
qed

theorem registry_send_witness:
  "sendChatMessage (flakySend []) ''And 4+4?''
       (run readyAI countingCreate (flakySend [])
          [StartExam ''You are a SOCRATIC TUTOR.'' False None, SendExam ''4''] (initialWorld 0)) =
     (Inl (mkError ''Chat not initialized''),
      \<lparr>chatSession = None, chatModelUsed = MODEL_FAST, examSession = Some 0,
       examModelUsed = MODEL_FAST, provider = 3\<rparr>)
   \<and> initializeChat readyAI countingCreate (flakySend []) Text ''What is 2+2?'' None
       (initialWorld 0) =
     (Inr \<lparr>output' = \<lparr>text' = Some ''ok'', groundingChunks = []\<rparr>, model = MODEL_FAST\<rparr>,
      \<lparr>chatSession = Some 0, chatModelUsed = MODEL_FAST, examSession = None,
       examModelUsed = MODEL_FAST, provider = 2\<rparr>)
   \<and> sendChatMessage (flakySend []) ''And 4+4?''
       (run readyAI countingCreate (flakySend []) [SendChat ''And 3+3?'']
          \<lparr>chatSession = Some 0, chatModelUsed = MODEL_FAST, examSession = None,
           examModelUsed = MODEL_FAST, provider = 2\<rparr>) =
     (Inr (JObj [(''text'', JStr ''ok''), (''sources'', JUndefined),
                 (''modelUsed'', JStr ''gemini-2.5-flash'')]),
      \<lparr>chatSession = Some 0, chatModelUsed = MODEL_FAST, examSession = None,
       examModelUsed = MODEL_FAST, provider = 4\<rparr>)"
proof -
  let ?w1 = "\<lparr>chatSession = Some (0::nat), chatModelUsed = MODEL_FAST, examSession = None,
       examModelUsed = MODEL_FAST, provider = 2::nat\<rparr>"
  let ?r = "\<lparr>output' = \<lparr>text' = Some ''ok'', groundingChunks = []\<rparr>, model = MODEL_FAST\<rparr>"
  have ev: "run readyAI countingCreate (flakySend [])
          [StartExam ''You are a SOCRATIC TUTOR.'' False None, SendExam ''4''] (initialWorld 0) =
      \<lparr>chatSession = None, chatModelUsed = MODEL_FAST, examSession = Some 0,
       examModelUsed = MODEL_FAST, provider = 3\<rparr>"
    "run readyAI countingCreate (flakySend []) [SendChat ''And 3+3?''] ?w1 = ?w1\<lparr>provider := 3\<rparr>"
    by (simp_all add: run_def startExamSession_def callAI_no_fallback startExamCall_def
        readyAI_def countingCreate_def flakySend_def initialWorld_def sendExamMessage_def
        sendChatMessage_def)
  have st: "initializeChat readyAI countingCreate (flakySend []) Text ''What is 2+2?'' None
       (initialWorld 0) = (Inr ?r, ?w1)"
    by (simp add: initializeChat_def callAI_no_fallback initChatCall_def readyAI_def
        countingCreate_def flakySend_def initialWorld_def)
  have sd: "flakySend [] 0 (Plain ''And 4+4?'') 3 = (Inr \<lparr>text' = Some ''ok'', groundingChunks = []\<rparr>, 4)"
    by (simp add: flakySend_def)
  note t = registry_send [of "[StartExam ''You are a SOCRATIC TUTOR.'' False None, SendExam ''4'']"
      "flakySend []" "''And 4+4?''" readyAI countingCreate 0 Text "''What is 2+2?''" None
      "initialWorld 0" ?r ?w1 "[SendChat ''And 3+3?'']"]
  have a: "sendChatMessage (flakySend []) ''And 4+4?''
       (run readyAI countingCreate (flakySend [])
          [StartExam ''You are a SOCRATIC TUTOR.'' False None, SendExam ''4''] (initialWorld 0)) =
     (Inl (mkError ''Chat not initialized''),
      run readyAI countingCreate (flakySend [])
          [StartExam ''You are a SOCRATIC TUTOR.'' False None, SendExam ''4''] (initialWorld 0))"
    using t by simp
  have b: "sendChatMessage (flakySend []) ''And 4+4?'' (?w1\<lparr>provider := 3\<rparr>) =
      (Inr (chatReply \<lparr>text' = Some ''ok'', groundingChunks = []\<rparr> MODEL_FAST),
       ?w1\<lparr>provider := 4\<rparr>)"
    using t st sd unfolding ev by auto
  show ?thesis
    using a b st unfolding ev
    by (simp add: chatReply_def orEmpty_def sourcesOrUndefined_def MODEL_FAST_def)
qed

text \<open>
  C10. In \<open>initializeChat\<close> and \<open>startExamSession\<close> the slot and the recorded model
  are assigned before the first message is sent. When that first send throws, the start
  fails, the slot holds the session just created, whatever it held before, and a send on
  the slot is passed to that session instead of raising the not-initialized error.
\<close>

theorem start_not_atomic:
  "(getAI (provider w) = None
      \<and> create MODEL_FAST ''Helpful AI Tutor. Use Google Search for facts.'' (provider w)
          = (Inr session, p1)
      \<and> sendMessage session (chatFirstMessage ty dat textContext) p1 = (Inl e, p2)
    \<longrightarrow> initializeChat getAI create sendMessage ty dat textContext w =
          (Inl (propagated e),
           w\<lparr>chatSession := Some session, chatModelUsed := MODEL_FAST, provider := p2\<rparr>)
        \<and> sendChatMessage sendMessage msg
            (w\<lparr>chatSession := Some session, chatModelUsed := MODEL_FAST, provider := p2\<rparr>) =
          (map_sum id (\<lambda>result. chatReply result MODEL_FAST)
             (fst (sendMessage session (Plain msg) p2)),
           w\<lparr>chatSession := Some session, chatModelUsed := MODEL_FAST,
             provider := snd (sendMessage session (Plain msg) p2)\<rparr>))
   \<and> (getAI (provider w) = None
      \<and> create MODEL_FAST systemPrompt (provider w) = (Inr session, p1)
      \<and> sendMessage session (examFirstMessage strictMode fileData) p1 = (Inl e, p2)
    \<longrightarrow> startExamSession getAI create sendMessage systemPrompt strictMode fileData w =
          (Inl (propagated e),
           w\<lparr>examSession := Some session, examModelUsed := MODEL_FAST, provider := p2\<rparr>)
        \<and> sendExamMessage sendMessage msg
            (w\<lparr>examSession := Some session, examModelUsed := MODEL_FAST, provider := p2\<rparr>) =
          (map_sum id (\<lambda>result. examReply result MODEL_FAST)
             (fst (sendMessage session (Plain msg) p2)),
           w\<lparr>examSession := Some session, examModelUsed := MODEL_FAST,
             provider := snd (sendMessage session (Plain msg) p2)\<rparr>))"
proof (intro conjI impI; elim conjE)
  assume g: "getAI (provider w) = None"
    and c: "create MODEL_FAST ''Helpful AI Tutor. Use Google Search for facts.'' (provider w)
          = (Inr session, p1)"
    and s: "sendMessage session (chatFirstMessage ty dat textContext) p1 = (Inl e, p2)"
  show "initializeChat getAI create sendMessage ty dat textContext w =
          (Inl (propagated e),
           w\<lparr>chatSession := Some session, chatModelUsed := MODEL_FAST, provider := p2\<rparr>)"
    using initializeChat_run [where getAI = getAI and create = create
        and sendMessage = sendMessage, OF g c s] by simp
  show "sendChatMessage sendMessage msg
            (w\<lparr>chatSession := Some session, chatModelUsed := MODEL_FAST, provider := p2\<rparr>) =
          (map_sum id (\<lambda>result. chatReply result MODEL_FAST)
             (fst (sendMessage session (Plain msg) p2)),
           w\<lparr>chatSession := Some session, chatModelUsed := MODEL_FAST,
             provider := snd (sendMessage session (Plain msg) p2)\<rparr>)"
    using sendChatMessage_forward [of "w\<lparr>chatSession := Some session, chatModelUsed := MODEL_FAST, provider := p2\<rparr>" session sendMessage msg]
    by simp
next
  assume g: "getAI (provider w) = None"
    and c: "create MODEL_FAST systemPrompt (provider w) = (Inr session, p1)"
    and s: "sendMessage session (examFirstMessage strictMode fileData) p1 = (Inl e, p2)"
  show "startExamSession getAI create sendMessage systemPrompt strictMode fileData w =
          (Inl (propagated e),
           w\<lparr>examSession := Some session, examModelUsed := MODEL_FAST, provider := p2\<rparr>)"
    using startExamSession_run [where getAI = getAI and create = create
        and sendMessage = sendMessage, OF g c s] by simp
  show "sendExamMessage sendMessage msg
            (w\<lparr>examSession := Some session, examModelUsed := MODEL_FAST, provider := p2\<rparr>) =
          (map_sum id (\<lambda>result. examReply result MODEL_FAST)
             (fst (sendMessage session (Plain msg) p2)),
           w\<lparr>examSession := Some session, examModelUsed := MODEL_FAST,
             provider := snd (sendMessage session (Plain msg) p2)\<rparr>)"
    using sendExamMessage_forward [of "w\<lparr>examSession := Some session, examModelUsed := MODEL_FAST, provider := p2\<rparr>" session sendMessage msg]
    by simp
qed

theorem start_not_atomic_witness:
  "initializeChat readyAI countingCreate (flakySend [1]) Text ''What is 2+2?'' None (initialWorld 0) =
     (Inl (mkError ''fetch failed''),
      \<lparr>chatSession = Some 0, chatModelUsed = MODEL_FAST, examSession = None,
       examModelUsed = MODEL_FAST, provider = 2\<rparr>)
   \<and> sendChatMessage (flakySend [1]) ''Again: 2+2?''
       \<lparr>chatSession = Some 0, chatModelUsed = MODEL_FAST, examSession = None,
        examModelUsed = MODEL_FAST, provider = 2\<rparr> =
     (Inr (JObj [(''text'', JStr ''ok''), (''sources'', JUndefined),
                 (''modelUsed'', JStr ''gemini-2.5-flash'')]),
      \<lparr>chatSession = Some 0, chatModelUsed = MODEL_FAST, examSession = None,
       examModelUsed = MODEL_FAST, provider = 3\<rparr>)
   \<and> startExamSession readyAI countingCreate (flakySend [1]) ''You are a SOCRATIC TUTOR.'' False None
       (initialWorld 0) =
     (Inl (mkError ''fetch failed''),
      \<lparr>chatSession = None, chatModelUsed = MODEL_FAST, examSession = Some 0,
       examModelUsed = MODEL_FAST, provider = 2\<rparr>)
   \<and> sendExamMessage (flakySend [1]) ''My answer is 4.''
       \<lparr>chatSession = None, chatModelUsed = MODEL_FAST, examSession = Some 0,
        examModelUsed = MODEL_FAST, provider = 2\<rparr> =
     (Inr (JObj [(''text'', JStr ''ok''), (''modelUsed'', JStr ''gemini-2.5-flash''),
                 (''sources'', JUndefined)]),
      \<lparr>chatSession = None, chatModelUsed = MODEL_FAST, examSession = Some 0,
       examModelUsed = MODEL_FAST, provider = 3\<rparr>)"
proof -
  have g: "readyAI (provider (initialWorld 0 :: (nat, nat) world)) = None"
    by (simp add: readyAI_def)
  have c: "countingCreate MODEL_FAST ''Helpful AI Tutor. Use Google Search for facts.''
             (provider (initialWorld 0 :: (nat, nat) world)) = (Inr 0, 1)"
    "countingCreate MODEL_FAST ''You are a SOCRATIC TUTOR.''
             (provider (initialWorld 0 :: (nat, nat) world)) = (Inr 0, 1)"
    by (simp_all add: countingCreate_def initialWorld_def)
  have s: "flakySend [1] 0 (chatFirstMessage Text ''What is 2+2?'' None) 1 = (Inl (mkError ''fetch failed''), 2)"
    "flakySend [1] 0 (examFirstMessage False None) 1 = (Inl (mkError ''fetch failed''), 2)"
    by (simp_all add: flakySend_def)
  have q: "propagated (mkError ''fetch failed'') = mkError ''fetch failed''"
    by (simp add: propagated_def rethrown_def isQuota_def errorMsg_def msgIncludes_def bindE_def
        statusOf_def mkError_def startsWith_def)
  from start_not_atomic [of readyAI "initialWorld 0" countingCreate 0 1 "flakySend [1]" Text
      "''What is 2+2?''" None "mkError ''fetch failed''" 2 "''Again: 2+2?''"
      "''You are a SOCRATIC TUTOR.''" False None] g c(1) s(1) q
  have chat: "initializeChat readyAI countingCreate (flakySend [1]) Text ''What is 2+2?'' None (initialWorld 0) =
          (Inl (mkError ''fetch failed''),
           (initialWorld 0)\<lparr>chatSession := Some 0, chatModelUsed := MODEL_FAST, provider := 2\<rparr>)"
    "sendChatMessage (flakySend [1]) ''Again: 2+2?''
            ((initialWorld 0)\<lparr>chatSession := Some 0, chatModelUsed := MODEL_FAST, provider := 2\<rparr>) =
          (map_sum id (\<lambda>result. chatReply result MODEL_FAST)
             (fst (flakySend [1] 0 (Plain ''Again: 2+2?'') 2)),
           (initialWorld 0)\<lparr>chatSession := Some 0, chatModelUsed := MODEL_FAST,
             provider := snd (flakySend [1] 0 (Plain ''Again: 2+2?'') 2)\<rparr>)"
    by simp_all
  from start_not_atomic [of readyAI "initialWorld 0" countingCreate 0 1 "flakySend [1]" Text
      "''What is 2+2?''" None "mkError ''fetch failed''" 2 "''My answer is 4.''"
      "''You are a SOCRATIC TUTOR.''" False None] g c(2) s(2) q
  have exam: "startExamSession readyAI countingCreate (flakySend [1]) ''You are a SOCRATIC TUTOR.'' False None
          (initialWorld 0) =
          (Inl (mkError ''fetch failed''),
           (initialWorld 0)\<lparr>examSession := Some 0, examModelUsed := MODEL_FAST, provider := 2\<rparr>)"
    "sendExamMessage (flakySend [1]) ''My answer is 4.''
            ((initialWorld 0)\<lparr>examSession := Some 0, examModelUsed := MODEL_FAST, provider := 2\<rparr>) =
          (map_sum id (\<lambda>result. examReply result MODEL_FAST)
             (fst (flakySend [1] 0 (Plain ''My answer is 4.'') 2)),
           (initialWorld 0)\<lparr>examSession := Some 0, examModelUsed := MODEL_FAST,
             provider := snd (flakySend [1] 0 (Plain ''My answer is 4.'') 2)\<rparr>)"
    by simp_all
  show ?thesis
    using chat exam
    by (simp add: initialWorld_def flakySend_def chatReply_def examReply_def orEmpty_def
        sourcesOrUndefined_def MODEL_FAST_def)
qed

end
